theory Spec2Isabelle
  imports Main "HOL-Library.Sublist"
begin

section \<open>Python values of the agent record\<close>

text \<open>
  A Python \<open>str\<close> is a sequence of Unicode code points; \<open>len\<close> and slicing count code
  points. A string is therefore a list of code points, and \<open>lit\<close> reads an ASCII literal
  of the source. The non-ASCII characters of the source's literals are named constants.
\<close>

type_synonym pystr = "nat list"

definition lit :: "string \<Rightarrow> pystr" where
  "lit s = map of_char s"

definition nl :: nat where "nl = 10"
definition bullet :: nat where "bullet = 8226"
definition arrow :: nat where "arrow = 8594"
definition heavy_bar :: nat where "heavy_bar = 9473"
definition cross :: nat where "cross = 10060"

definition banner :: pystr where
  "banner = replicate 47 heavy_bar"

text \<open>
  The fields of the agent object hold dynamically typed values: text columns and JSON
  columns. A dict is an association list in insertion order (the order \<open>items()\<close>
  iterates in); its keys are strings, as in JSON. Numbers are integers.
\<close>

datatype pyval =
    PNone
  | PBool bool
  | PInt int
  | PStr pystr
  | PList "pyval list"
  | PDict "(pystr \<times> pyval) list"

text \<open>Python truthiness, as tested by \<open>if x:\<close>.\<close>

fun truthy :: "pyval \<Rightarrow> bool" where
  "truthy PNone = False"
| "truthy (PBool b) = b"
| "truthy (PInt i) = (i \<noteq> 0)"
| "truthy (PStr s) = (s \<noteq> [])"
| "truthy (PList xs) = (xs \<noteq> [])"
| "truthy (PDict d) = (d \<noteq> [])"

fun isinstance_dict :: "pyval \<Rightarrow> bool" where
  "isinstance_dict (PDict d) = True"
| "isinstance_dict v = False"

fun items :: "pyval \<Rightarrow> (pystr \<times> pyval) list" where
  "items (PDict d) = d"
| "items v = []"

text \<open>\<open>d.get(k, default)\<close> and \<open>d.get(k)\<close>; the latter is also the value of \<open>d[k]\<close>
  wherever the source reads \<open>d[k]\<close>, which it does only after \<open>d.get(k)\<close> was truthy.\<close>

definition get_default :: "pyval \<Rightarrow> pystr \<Rightarrow> pyval \<Rightarrow> pyval" where
  "get_default d k dflt = (case map_of (items d) k of Some v \<Rightarrow> v | None \<Rightarrow> dflt)"

definition get :: "pyval \<Rightarrow> pystr \<Rightarrow> pyval" where
  "get d k = get_default d k PNone"

text \<open>
  Two functions of the Python runtime are parameters of the model: the text that
  \<open>str()\<close> and f-strings give for a value that is not a string, and the upper-case
  mapping of a code point outside ASCII (one code point may map to several).
\<close>

record pyrt =
  str_other :: "pyval \<Rightarrow> pystr"
  upper_other :: "nat \<Rightarrow> pystr"

definition py_str :: "pyrt \<Rightarrow> pyval \<Rightarrow> pystr" where
  "py_str rt v = (case v of PStr s \<Rightarrow> s | _ \<Rightarrow> str_other rt v)"

definition upper_cp :: "pyrt \<Rightarrow> nat \<Rightarrow> pystr" where
  "upper_cp rt c =
     (if 97 \<le> c \<and> c \<le> 122 then [c - 32]
      else if c < 128 then [c]
      else upper_other rt c)"

definition upper :: "pyrt \<Rightarrow> pystr \<Rightarrow> pystr" where
  "upper rt s = concat (map (upper_cp rt) s)"

definition replace_underscore :: "pystr \<Rightarrow> pystr" where
  "replace_underscore s = map (\<lambda>c. if c = 95 then 32 else c) s"

datatype py_error = TypeError | AttributeError

record agent =
  name :: pyval
  business_info :: pyval
  sales_script_text :: pyval
  knowledge_files :: pyval

section \<open>The prompt builder\<close>

text \<open>\<open>"\n".join(parts)\<close> on strings.\<close>

fun join_nl :: "pystr list \<Rightarrow> pystr" where
  "join_nl [] = []"
| "join_nl [x] = x"
| "join_nl (x # y # ys) = x @ [nl] @ join_nl (y # ys)"

text \<open>
  \<open>"\n".join(prompt_parts)\<close> raises \<open>TypeError\<close> when an item is not a string;
  \<open>strs_of\<close> gives the items as strings when all of them are.
\<close>

fun strs_of :: "pyval list \<Rightarrow> pystr list option" where
  "strs_of [] = Some []"
| "strs_of (PStr s # ps) = map_option (Cons s) (strs_of ps)"
| "strs_of (v # ps) = None"

fun isinstance_str :: "pyval \<Rightarrow> bool" where
  "isinstance_str (PStr s) = True"
| "isinstance_str v = False"

definition py_join :: "pyval list \<Rightarrow> py_error + pystr" where
  "py_join parts =
     (case strs_of parts of
        None \<Rightarrow> Inl TypeError
      | Some strs \<Rightarrow> Inr (join_nl strs))"

definition company_name_of :: "agent \<Rightarrow> pyval" where
  "company_name_of a =
     (if truthy (business_info a) \<and> isinstance_dict (business_info a)
      then get_default (business_info a) (lit ''company_name'') (PStr (lit ''our company''))
      else PStr (lit ''our company''))"

definition header_line :: "pystr \<Rightarrow> pystr" where
  "header_line company_name =
     lit ''You are a professional AI sales agent calling from '' @ company_name @ lit ''.''"

definition header_parts :: "pyrt \<Rightarrow> agent \<Rightarrow> pyval \<Rightarrow> pyval list" where
  "header_parts rt a company_name =
     [PStr (header_line (py_str rt company_name))]
     @ (if truthy (business_info a) \<and> isinstance_dict (business_info a)
        then (let biz_desc = get (business_info a) (lit ''business_description'')
              in if truthy biz_desc
                 then [PStr ([nl] @ lit ''COMPANY: '' @ py_str rt company_name
                               @ lit '' - '' @ py_str rt biz_desc)]
                 else [])
        else [])"

text \<open>
  The call script. A truthy \<open>sales_script_text\<close> that is not a string raises
  \<open>TypeError\<close>: at \<open>len(...)\<close> for a number, at \<open>"\n" + ...\<close> for a list or a dict.
\<close>

definition call_script_lines :: "pystr \<Rightarrow> pystr list" where
  "call_script_lines script =
     [[nl] @ [nl] @ banner,
      lit ''CALL SCRIPT - NATURAL CONVERSATION FLOW:'',
      banner,
      [nl] @ lit ''HOW TO USE THIS SCRIPT:'',
      [bullet] @ lit '' If customer LISTENS silently '' @ [arrow] @ lit '' Continue step-by-step'',
      [bullet] @ lit '' If customer INTERRUPTS '' @ [arrow]
        @ lit '' Respond to their question/comment'',
      [bullet] @ lit '' After answering '' @ [arrow]
        @ lit '' Continue where you left off in the script'',
      [nl] @ script]"

definition call_script_parts :: "agent \<Rightarrow> py_error + pyval list" where
  "call_script_parts a =
     (if truthy (sales_script_text a)
      then (case sales_script_text a of
              PStr script \<Rightarrow> Inr (map PStr (call_script_lines script))
            | _ \<Rightarrow> Inl TypeError)
      else Inr [])"

definition product_features_parts :: "pyrt \<Rightarrow> pyval \<Rightarrow> pyval list" where
  "product_features_parts rt biz =
     (if truthy (get biz (lit ''product_features''))
      then [PStr ([nl] @ lit ''PRODUCT FEATURES:'')]
           @ (case get biz (lit ''product_features'') of
                PList features \<Rightarrow> map (\<lambda>feat. PStr ([bullet] @ lit '' '' @ py_str rt feat)) features
              | PStr features \<Rightarrow> [PStr features]
              | _ \<Rightarrow> [])
      else [])"

definition business_info_parts :: "pyrt \<Rightarrow> agent \<Rightarrow> pyval list" where
  "business_info_parts rt a =
     (if truthy (business_info a) \<and> isinstance_dict (business_info a)
      then (let biz = business_info a in
              (if truthy (get biz (lit ''company_website''))
               then [PStr ([nl] @ lit ''Website: '' @ py_str rt (get biz (lit ''company_website'')))]
               else [])
            @ (if truthy (get biz (lit ''industry''))
               then [PStr (lit ''Industry: '' @ py_str rt (get biz (lit ''industry'')))]
               else [])
            @ product_features_parts rt biz
            @ (if truthy (get biz (lit ''pricing_info''))
               then [PStr ([nl] @ lit ''PRICING:''), get biz (lit ''pricing_info'')]
               else [])
            @ (if truthy (get biz (lit ''target_customers''))
               then [PStr ([nl] @ lit ''TARGET CUSTOMERS:''), get biz (lit ''target_customers'')]
               else []))
      else [])"

fun knowledge_entries :: "pyrt \<Rightarrow> (pystr \<times> pyval) list \<Rightarrow> pyval list" where
  "knowledge_entries rt [] = []"
| "knowledge_entries rt ((key, val) # kvs) =
     (if truthy val
      then [PStr ([nl] @ replace_underscore (upper rt key) @ lit '':''), PStr (py_str rt val)]
      else [])
     @ knowledge_entries rt kvs"

definition knowledge_files_parts :: "pyrt \<Rightarrow> agent \<Rightarrow> pyval list" where
  "knowledge_files_parts rt a =
     (if truthy (knowledge_files a) \<and> isinstance_dict (knowledge_files a)
      then knowledge_entries rt (items (knowledge_files a))
      else [])"

text \<open>
  The knowledge base. \<open>company_name.upper()\<close> raises \<open>AttributeError\<close> when the
  company name read from \<open>business_info\<close> is not a string.
\<close>

definition knowledge_base_parts :: "pyrt \<Rightarrow> agent \<Rightarrow> pyval \<Rightarrow> py_error + pyval list" where
  "knowledge_base_parts rt a company_name =
     (if truthy (knowledge_files a) \<or> truthy (business_info a)
      then (case company_name of
              PStr cn \<Rightarrow> Inr
                ([PStr ([nl] @ [nl] @ banner),
                  PStr (upper rt cn @ lit '' KNOWLEDGE BASE:''),
                  PStr banner]
                 @ business_info_parts rt a
                 @ knowledge_files_parts rt a)
            | _ \<Rightarrow> Inl AttributeError)
      else Inr [])"

definition question_handling_lines :: "pystr \<Rightarrow> pystr list" where
  \<open>question_handling_lines company_name =
     [[nl] @ [nl] @ banner,
      lit ''INTELLIGENT QUESTION HANDLING:'',
      banner,
      [nl] @ lit ''WHEN CUSTOMER ASKS QUESTIONS:'',
      lit ''1. Search knowledge base above for relevant information'',
      lit ''2. Answer in 1-2 sentences maximum'',
      lit ''3. After answering, RETURN to script where you left off'',
      [nl] @ lit ''EXAMPLES:'',
      [bullet] @ lit '' "Can you hear me?" '' @ [arrow]
              @ lit '' "Yes, I can hear you perfectly. Let me continue..."'',
      [bullet] @ lit '' "How are you?" '' @ [arrow]
              @ lit '' "I'm great, thanks! Let me tell you about '' @ company_name
              @ lit ''..."'',
      [bullet] @ lit '' Technical question '' @ [arrow]
              @ lit '' Answer from knowledge base + continue script'',
      [bullet] @ lit '' Off-topic '' @ [arrow]
              @ lit '' "Let me connect you with someone for that. Now, about ''
              @ company_name @ lit ''..."'',
      [nl] @ lit ''GOLDEN RULE: Always bring conversation back to sales call after answering questions!'']\<close>

definition critical_rules_lines :: "pystr \<Rightarrow> pystr list" where
  \<open>critical_rules_lines company_name =
     [[nl] @ [nl] @ banner,
      lit ''CRITICAL RESPONSE RULES:'',
      banner,
      [nl] @ lit ''1. Maximum 2 sentences per response - NO EXCEPTIONS'',
      lit ''2. Use exact script wording for main call flow'',
      lit ''3. For questions: Search knowledge base '' @ [arrow] @ lit '' Answer briefly ''
              @ [arrow] @ lit '' Return to script'',
      lit ''4. No filler words: 'um', 'uh', 'like', 'you know', 'hmm', 'well'' @ [39],
      lit ''5. Be direct and professional'',
      lit ''6. Answer ANY question about '' @ company_name
              @ lit '' using knowledge base'',
      lit ''7. For unrelated questions: Brief answer '' @ [arrow]
              @ lit '' Redirect to sales call'',
      lit ''8. Never make up information not in knowledge base'',
      lit ''9. Always return to script after answering questions'',
      lit ''10. Keep moving toward demo booking goal'',
      [nl] @ lit ''FORBIDDEN BEHAVIORS:'',
      [cross] @ lit '' Long responses (>2 sentences)'',
      [cross] @ lit '' Completely ignoring customer questions'',
      [cross] @ lit '' Saying 'I don't know' when info is in knowledge base'',
      [cross] @ lit '' Changing script wording'',
      [cross] @ lit '' Uncertain phrases ('I think', 'maybe', 'probably')'',
      [cross] @ lit '' Getting stuck on off-topic discussion'',
      [cross] @ lit '' Forgetting to return to script after answering'',
      [nl] @ lit ''TONE: Professional, confident, clear, helpful'',
      lit ''STYLE: Sales call with intelligent question handling'',
      lit ''GOAL: Answer questions intelligently, deliver script, book demo'']\<close>

text \<open>
  The body of the \<open>try\<close> block for a present agent: the sections in the order of the
  source, an exception of a section ending the block, then the join. The source also
  sets \<open>agent_name\<close> from \<open>agent_obj.name\<close>, which no later line reads, and writes
  log lines; neither has a part in the result.
\<close>

definition build_prompt_parts :: "pyrt \<Rightarrow> agent \<Rightarrow> py_error + pyval list" where
  "build_prompt_parts rt a =
     (let company_name = company_name_of a in
      case call_script_parts a of
        Inl e \<Rightarrow> Inl e
      | Inr script \<Rightarrow>
          (case knowledge_base_parts rt a company_name of
             Inl e \<Rightarrow> Inl e
           | Inr kb \<Rightarrow>
               Inr (header_parts rt a company_name @ script @ kb
                    @ map PStr (question_handling_lines (py_str rt company_name))
                    @ map PStr (critical_rules_lines (py_str rt company_name)))))"

definition build_prompt_try :: "pyrt \<Rightarrow> agent \<Rightarrow> py_error + pystr" where
  "build_prompt_try rt a =
     (case build_prompt_parts rt a of
        Inl e \<Rightarrow> Inl e
      | Inr parts \<Rightarrow> py_join parts)"

text \<open>
  \<open>_build_system_prompt\<close>: an absent agent gives the base prompt, and so does any
  exception of the \<open>try\<close> block (\<open>except Exception\<close>).
\<close>

definition build_system_prompt :: "pyrt \<Rightarrow> pystr \<Rightarrow> agent option \<Rightarrow> pystr" where
  "build_system_prompt rt base_prompt agent_obj =
     (case agent_obj of
        None \<Rightarrow> base_prompt
      | Some a \<Rightarrow>
          (case build_prompt_try rt a of
             Inl e \<Rightarrow> base_prompt
           | Inr enhanced_prompt \<Rightarrow> enhanced_prompt))"

section \<open>The HTTP client\<close>

text \<open>
  The client talks to the outside through \<open>requests\<close> and reads the clock in the retry
  path. Both are parameters: \<open>transport\<close> gives the outcome of a request from the
  requests made before it and the request itself, \<open>clock\<close> gives the k-th reading of
  \<open>datetime.now()\<close>. The \<open>world\<close> records the requests made so far, oldest first,
  and the number of clock readings.
\<close>

datatype http_method = POST | PATCH

record request =
  req_method :: http_method
  url :: pystr
  json :: pyval
  headers :: "(pystr \<times> pystr) list"
  timeout :: nat

text \<open>
  A request either returns a response, of which the client reads the status code and the
  body parsed by \<open>response.json()\<close> (\<open>None\<close> when parsing raises), or raises.
\<close>

datatype outcome =
    Response nat "pyval option"
  | Timeout
  | ConnectionError
  | OtherException

record datetime =
  year :: nat
  month :: nat
  day :: nat
  hour :: nat
  minute :: nat
  second :: nat

record env =
  transport :: "request list \<Rightarrow> request \<Rightarrow> outcome"
  clock :: "nat \<Rightarrow> datetime"

record world =
  sent :: "request list"
  clock_reads :: nat

record service =
  api_key :: pystr
  base_url :: pystr

text \<open>\<open>HumeAgentService.__init__\<close>, the key being the configured \<open>HUME_API_KEY\<close>.\<close>

definition HumeAgentService :: "pystr \<Rightarrow> service" where
  "HumeAgentService key = \<lparr>api_key = key, base_url = lit ''https://api.hume.ai/v0''\<rparr>"

definition service_headers :: "service \<Rightarrow> (pystr \<times> pystr) list" where
  "service_headers svc =
     [(lit ''X-Hume-Api-Key'', api_key svc), (lit ''Content-Type'', lit ''application/json'')]"

text \<open>\<open>strftime('%Y%m%d%H%M%S')\<close>: fourteen decimal digits, down to the second.\<close>

definition digit :: "nat \<Rightarrow> nat" where
  "digit n = 48 + n mod 10"

definition pad2 :: "nat \<Rightarrow> pystr" where
  "pad2 n = [digit (n div 10), digit n]"

definition pad4 :: "nat \<Rightarrow> pystr" where
  "pad4 n = [digit (n div 1000), digit (n div 100), digit (n div 10), digit n]"

definition strftime :: "datetime \<Rightarrow> pystr" where
  "strftime dt =
     pad4 (year dt) @ pad2 (month dt) @ pad2 (day dt)
     @ pad2 (hour dt) @ pad2 (minute dt) @ pad2 (second dt)"

definition description_of :: "pystr \<Rightarrow> pystr" where
  "description_of enhanced_prompt =
     (if length enhanced_prompt > 200 then take 200 enhanced_prompt @ lit ''...''
      else enhanced_prompt)"

definition create_payload ::
  "pyrt \<Rightarrow> pystr \<Rightarrow> pystr \<Rightarrow> pystr \<Rightarrow> pystr \<Rightarrow> agent option \<Rightarrow> pyval" where
  "create_payload rt nm system_prompt voice_name language agent_obj =
     (let enhanced_prompt = build_system_prompt rt system_prompt agent_obj in
      PDict
        [(lit ''name'', PStr nm),
         (lit ''prompt'', PDict [(lit ''text'', PStr enhanced_prompt)]),
         (lit ''voice'', PDict [(lit ''provider'', PStr (lit ''HUME_AI'')),
                               (lit ''name'', PStr voice_name)]),
         (lit ''language'', PDict [(lit ''code'', PStr language)]),
         (lit ''ellm_model'',
            PDict [(lit ''provider'', PStr (lit ''HUME_AI'')),
                   (lit ''model'', PStr (lit ''anthropic.claude-3-5-sonnet-20240620-v1:0'')),
                   (lit ''allow_short_responses'', PBool True)]),
         (lit ''builtin_tools'',
            PList [PDict [(lit ''name'', PStr (lit ''web_search'')), (lit ''enabled'', PBool True)],
                   PDict [(lit ''name'', PStr (lit ''hang_up'')), (lit ''enabled'', PBool True)]]),
         (lit ''description'', PStr (description_of enhanced_prompt))])"

definition create_request ::
  "pyrt \<Rightarrow> service \<Rightarrow> pystr \<Rightarrow> pystr \<Rightarrow> pystr \<Rightarrow> pystr \<Rightarrow> agent option \<Rightarrow> request" where
  "create_request rt svc nm system_prompt voice_name language agent_obj =
     \<lparr>req_method = POST,
      url = base_url svc @ lit ''/evi/configs'',
      json = create_payload rt nm system_prompt voice_name language agent_obj,
      headers = service_headers svc,
      timeout = 10\<rparr>"

text \<open>
  \<open>data = response.json(); data.get('id')\<close>: a body that does not parse, or that is
  not a dict, raises, and \<open>create_agent\<close> catches it and returns \<open>None\<close>.
\<close>

definition config_id_of :: "pyval option \<Rightarrow> pyval" where
  "config_id_of body =
     (case body of
        Some (PDict d) \<Rightarrow> get (PDict d) (lit ''id'')
      | _ \<Rightarrow> PNone)"

definition post :: "env \<Rightarrow> request \<Rightarrow> world \<Rightarrow> outcome \<times> world" where
  "post ev req w = (transport ev (sent w) req, w\<lparr>sent := sent w @ [req]\<rparr>)"

text \<open>
  \<open>datetime.now().strftime(...)\<close> is evaluated twice on a 409, for the log line and
  for the new name; the name takes the second reading.
\<close>

definition retry_name :: "env \<Rightarrow> pystr \<Rightarrow> world \<Rightarrow> pystr \<times> world" where
  "retry_name ev nm w =
     (nm @ lit ''_'' @ strftime (clock ev (clock_reads w + 1)),
      w\<lparr>clock_reads := clock_reads w + 2\<rparr>)"

text \<open>
  \<open>create_agent\<close> calls itself on a 409, and the source counts no retries. Read
  without the interpreter's bound on nested calls, the function is partial: \<open>None\<close>
  is a run that never returns. The result of a run that returns is the returned value
  (\<open>PNone\<close> for Python's \<open>None\<close>) and the world after it. The bound is added
  in \<open>create_agent_depth\<close> below.
\<close>

partial_function (option) create_agent ::
  "pyrt \<Rightarrow> env \<Rightarrow> service \<Rightarrow> pystr \<Rightarrow> pystr \<Rightarrow> pystr \<Rightarrow> pystr \<Rightarrow> agent option \<Rightarrow> world
     \<Rightarrow> (pyval \<times> world) option" where
  "create_agent rt ev svc nm system_prompt voice_name language agent_obj w =
     (case post ev (create_request rt svc nm system_prompt voice_name language agent_obj) w of
        (Response status_code body, w1) \<Rightarrow>
          if status_code = 201 then Some (config_id_of body, w1)
          else if status_code = 409 then
            (case retry_name ev nm w1 of
               (nm', w2) \<Rightarrow>
                 create_agent rt ev svc nm' system_prompt voice_name language agent_obj w2)
          else Some (PNone, w1)
      | (Timeout, w1) \<Rightarrow> Some (PNone, w1)
      | (ConnectionError, w1) \<Rightarrow> Some (PNone, w1)
      | (OtherException, w1) \<Rightarrow> Some (PNone, w1))"

text \<open>
  The interpreter bounds the nesting of calls, and the recursive call stands inside the
  \<open>try\<close> of \<open>create_agent\<close>. In \<open>create_agent_depth\<close> the first argument is the
  number of nested invocations that the bound leaves room for: an invocation beyond it
  raises \<open>RecursionError\<close> before it makes a request, \<open>except Exception\<close> catches it,
  and \<open>None\<close> is returned. Every run returns.
\<close>

fun create_agent_depth ::
  "nat \<Rightarrow> pyrt \<Rightarrow> env \<Rightarrow> service \<Rightarrow> pystr \<Rightarrow> pystr \<Rightarrow> pystr \<Rightarrow> pystr \<Rightarrow> agent option \<Rightarrow> world
     \<Rightarrow> pyval \<times> world" where
  "create_agent_depth 0 rt ev svc nm system_prompt voice_name language agent_obj w = (PNone, w)"
| "create_agent_depth (Suc depth) rt ev svc nm system_prompt voice_name language agent_obj w =
     (case post ev (create_request rt svc nm system_prompt voice_name language agent_obj) w of
        (Response status_code body, w1) \<Rightarrow>
          if status_code = 201 then (config_id_of body, w1)
          else if status_code = 409 then
            (case retry_name ev nm w1 of
               (nm', w2) \<Rightarrow>
                 create_agent_depth depth rt ev svc nm' system_prompt voice_name language
                   agent_obj w2)
          else (PNone, w1)
      | (Timeout, w1) \<Rightarrow> (PNone, w1)
      | (ConnectionError, w1) \<Rightarrow> (PNone, w1)
      | (OtherException, w1) \<Rightarrow> (PNone, w1))"

text \<open>
  \<open>update_agent\<close>: the optional arguments are \<open>None\<close> or a string, and an argument
  counts as supplied when it is truthy.
\<close>

definition supplied :: "pystr option \<Rightarrow> bool" where
  "supplied x = (case x of None \<Rightarrow> False | Some s \<Rightarrow> s \<noteq> [])"

definition update_payload ::
  "pystr option \<Rightarrow> pystr option \<Rightarrow> pystr option \<Rightarrow> pystr option \<Rightarrow> (pystr \<times> pyval) list" where
  "update_payload nm system_prompt voice_name language =
     (if supplied nm then [(lit ''name'', PStr (the nm))] else [])
     @ (if supplied system_prompt
        then [(lit ''prompt'', PDict [(lit ''text'', PStr (the system_prompt))])] else [])
     @ (if supplied voice_name
        then [(lit ''voice'', PDict [(lit ''provider'', PStr (lit ''HUME_AI'')),
                                    (lit ''name'', PStr (the voice_name))])] else [])
     @ (if supplied language
        then [(lit ''language'', PDict [(lit ''code'', PStr (the language))])] else [])"

definition update_agent ::
  "env \<Rightarrow> service \<Rightarrow> pystr \<Rightarrow> pystr option \<Rightarrow> pystr option \<Rightarrow> pystr option \<Rightarrow> pystr option
     \<Rightarrow> world \<Rightarrow> bool \<times> world" where
  "update_agent ev svc config_id nm system_prompt voice_name language w =
     (let payload = update_payload nm system_prompt voice_name language in
      if payload = [] then (False, w)
      else
        (case post ev \<lparr>req_method = PATCH,
                        url = base_url svc @ lit ''/evi/configs/'' @ config_id,
                        json = PDict payload,
                        headers = service_headers svc,
                        timeout = 10\<rparr> w of
           (Response status_code body, w1) \<Rightarrow> (status_code = 200, w1)
         | (_, w1) \<Rightarrow> (False, w1)))"

section \<open>The text of the prompt, section by section\<close>

text \<open>
  The following definitions describe the composed text as the specification words it:
  a header line followed by sections of lines, every line after the header preceded by a
  line break. They are compared with the builder above in the theorems below.
\<close>

definition after_nl :: "pystr list \<Rightarrow> pystr" where
  "after_nl ls = concat (map (\<lambda>l. nl # l) ls)"

text \<open>The company description, present when \<open>business_description\<close> is.\<close>

definition company_lines :: "pyrt \<Rightarrow> agent \<Rightarrow> pystr list" where
  "company_lines rt a =
     (if truthy (get (business_info a) (lit ''business_description''))
      then [[nl] @ lit ''COMPANY: '' @ py_str rt (company_name_of a) @ lit '' - ''
              @ py_str rt (get (business_info a) (lit ''business_description''))]
      else [])"

text \<open>The call script section, present when the script is a non-empty string.\<close>

definition script_lines :: "agent \<Rightarrow> pystr list" where
  "script_lines a =
     (case sales_script_text a of
        PStr s \<Rightarrow> if s = [] then [] else call_script_lines s
      | _ \<Rightarrow> [])"

text \<open>Product features: one bullet per element of a sequence, a string verbatim.\<close>

definition kb_feature_lines :: "pyrt \<Rightarrow> pyval \<Rightarrow> pystr list" where
  "kb_feature_lines rt features =
     (case features of
        PList fs \<Rightarrow> map (\<lambda>feat. [bullet] @ lit '' '' @ py_str rt feat) fs
      | PStr s \<Rightarrow> [s]
      | _ \<Rightarrow> [])"

text \<open>Website, industry, product features, pricing, target customers, in this order,
  each one when its value is truthy.\<close>

definition kb_business_lines :: "pyrt \<Rightarrow> pyval \<Rightarrow> pystr list" where
  "kb_business_lines rt biz =
       (if truthy (get biz (lit ''company_website''))
        then [[nl] @ lit ''Website: '' @ py_str rt (get biz (lit ''company_website''))] else [])
     @ (if truthy (get biz (lit ''industry''))
        then [lit ''Industry: '' @ py_str rt (get biz (lit ''industry''))] else [])
     @ (if truthy (get biz (lit ''product_features''))
        then ([nl] @ lit ''PRODUCT FEATURES:'')
             # kb_feature_lines rt (get biz (lit ''product_features''))
        else [])
     @ (if truthy (get biz (lit ''pricing_info''))
        then [[nl] @ lit ''PRICING:'', py_str rt (get biz (lit ''pricing_info''))] else [])
     @ (if truthy (get biz (lit ''target_customers''))
        then [[nl] @ lit ''TARGET CUSTOMERS:'', py_str rt (get biz (lit ''target_customers''))]
        else [])"

text \<open>A knowledge file entry: the label upper-cased with underscores as spaces, then
  the value as text.\<close>

definition kb_entry_lines :: "pyrt \<Rightarrow> pystr \<times> pyval \<Rightarrow> pystr list" where
  "kb_entry_lines rt kv =
     [[nl] @ replace_underscore (upper rt (fst kv)) @ lit '':'', py_str rt (snd kv)]"

text \<open>The entries as the specification words them: every entry rendered.\<close>

definition kb_entries_as_claimed :: "pyrt \<Rightarrow> (pystr \<times> pyval) list \<Rightarrow> pystr list" where
  "kb_entries_as_claimed rt kvs = concat (map (kb_entry_lines rt) kvs)"

text \<open>The knowledge base section: the entries with a truthy value only.\<close>

definition kb_section_lines :: "pyrt \<Rightarrow> agent \<Rightarrow> pystr list" where
  "kb_section_lines rt a =
     (if truthy (knowledge_files a) \<or> truthy (business_info a)
      then [[nl] @ [nl] @ banner,
            upper rt (py_str rt (company_name_of a)) @ lit '' KNOWLEDGE BASE:'',
            banner]
           @ kb_business_lines rt (business_info a)
           @ concat (map (kb_entry_lines rt)
                       (filter (\<lambda>kv. truthy (snd kv)) (items (knowledge_files a))))
      else [])"

section \<open>Test fixtures\<close>

text \<open>
  A runtime for examples whose values are ASCII strings, where neither parameter is
  consulted; a mock transport that answers the k-th request with the k-th outcome of a
  script and any later request with a default; a clock that stands still.
\<close>

definition ascii_rt :: pyrt where
  "ascii_rt = \<lparr>str_other = (\<lambda>v. []), upper_other = (\<lambda>c. [c])\<rparr>"

definition scripted_transport :: "outcome list \<Rightarrow> outcome \<Rightarrow> request list \<Rightarrow> request \<Rightarrow> outcome" where
  "scripted_transport script dflt history req =
     (if length history < length script then script ! length history else dflt)"

definition fixed_clock :: "datetime \<Rightarrow> nat \<Rightarrow> datetime" where
  "fixed_clock dt k = dt"

definition noon :: datetime where
  "noon = \<lparr>year = 2025, month = 1, day = 2, hour = 12, minute = 0, second = 5\<rparr>"

definition mock_env :: "outcome list \<Rightarrow> env" where
  "mock_env script = \<lparr>transport = scripted_transport script Timeout, clock = fixed_clock noon\<rparr>"

text \<open>A transport that answers every request with 409.\<close>

definition conflict_env :: env where
  "conflict_env =
     \<lparr>transport = scripted_transport [] (Response 409 None), clock = fixed_clock noon\<rparr>"

definition fresh_world :: world where
  "fresh_world = \<lparr>sent = [], clock_reads = 0\<rparr>"

definition demo_service :: service where
  "demo_service = HumeAgentService (lit ''test-key'')"

definition plain_agent :: agent where
  "plain_agent =
     \<lparr>name = PStr (lit ''Ava''), business_info = PNone, sales_script_text = PNone,
      knowledge_files = PNone\<rparr>"

definition scripted_agent :: agent where
  "scripted_agent = plain_agent\<lparr>sales_script_text := PStr (lit ''Hi, this is Ava.'')\<rparr>"

text \<open>An agent whose pricing is a nested dict, not text.\<close>

definition malformed_agent :: agent where
  "malformed_agent =
     scripted_agent\<lparr>business_info :=
       PDict [(lit ''pricing_info'', PDict [(lit ''basic'', PInt 10)])]\<rparr>"

definition empty_fields_agent :: agent where
  "empty_fields_agent =
     plain_agent\<lparr>business_info := PDict [], sales_script_text := PStr [],
       knowledge_files := PDict []\<rparr>"

definition faq_agent :: agent where
  "faq_agent = plain_agent\<lparr>knowledge_files := PDict [(lit ''faq'', PStr [])]\<rparr>"

definition acme_agent :: agent where
  "acme_agent =
     \<lparr>name = PStr (lit ''Ava''),
      business_info =
        PDict [(lit ''company_name'', PStr (lit ''Acme'')),
               (lit ''company_website'', PStr (lit ''acme.example'')),
               (lit ''product_features'', PList [PStr (lit ''Fast''), PStr (lit ''Safe'')]),
               (lit ''pricing_info'', PStr (lit ''10 per seat''))],
      sales_script_text = PStr (lit ''Hi, this is Ava.''),
      knowledge_files =
        PDict [(lit ''return_policy'', PStr (lit ''30 days'')), (lit ''faq'', PStr [])]\<rparr>"

section \<open>Basic facts\<close>

lemma lit_eq_iff: "lit s = lit t \<longleftrightarrow> s = t"
proof -
  have "inj (of_char :: char \<Rightarrow> nat)"
    by (rule injI) simp
  then show ?thesis
    unfolding lit_def by (simp add: inj_map_eq_map)
qed

lemma lit_Nil_iff: "lit s = [] \<longleftrightarrow> s = []"
  by (simp add: lit_def)

lemma strs_of_map_PStr: "strs_of (map PStr xs) = Some xs"
  by (induction xs) auto

lemma strs_of_append:
  "strs_of (xs @ ys) = Some zs \<longleftrightarrow>
     (\<exists>as bs. strs_of xs = Some as \<and> strs_of ys = Some bs \<and> zs = as @ bs)"
proof (induction xs arbitrary: zs)
  case Nil
  then show ?case by simp
next
  case (Cons x xs)
  then show ?case by (cases x) auto
qed

lemma strs_of_appendE:
  assumes "strs_of (xs @ ys) = Some zs"
  obtains as bs where "strs_of xs = Some as" "strs_of ys = Some bs" "zs = as @ bs"
  using assms strs_of_append by blast

lemma py_join_strs: "py_join (map PStr xs) = Inr (join_nl xs)"
  by (simp add: py_join_def strs_of_map_PStr)

lemma after_nl_append: "after_nl (xs @ ys) = after_nl xs @ after_nl ys"
  by (simp add: after_nl_def)

lemma join_nl_Cons: "join_nl (x # xs) = x @ after_nl xs"
  by (induction xs arbitrary: x) (auto simp: after_nl_def)

lemma after_nl_ne: "xs \<noteq> [] \<Longrightarrow> after_nl xs = nl # join_nl xs"
  by (cases xs) (auto simp: join_nl_Cons, simp add: after_nl_def)

lemma question_handling_lines_ne: "question_handling_lines c \<noteq> []"
  by (simp add: question_handling_lines_def)

lemma critical_rules_lines_ne: "critical_rules_lines c \<noteq> []"
  by (simp add: critical_rules_lines_def)

lemma get_truthyD: "truthy (get d k) \<Longrightarrow> truthy d \<and> isinstance_dict d"
  by (cases d) (auto simp: get_def get_default_def)

text \<open>The text for an agent without script and without knowledge base.\<close>

lemma join_minimal:
  "join_nl ([header_line c] @ question_handling_lines c @ critical_rules_lines c)
     = header_line c @ [nl] @ join_nl (question_handling_lines c) @ [nl]
       @ join_nl (critical_rules_lines c)"
  by (simp add: join_nl_Cons after_nl_append after_nl_ne question_handling_lines_ne
        critical_rules_lines_ne)

lemma build_prompt_try_falsy:
  assumes "\<not> truthy (sales_script_text a)" "\<not> truthy (business_info a)"
    "\<not> truthy (knowledge_files a)"
  shows "build_prompt_try rt a =
           Inr (header_line (lit ''our company'') @ [nl]
                @ join_nl (question_handling_lines (lit ''our company'')) @ [nl]
                @ join_nl (critical_rules_lines (lit ''our company'')))"
proof -
  let ?c = "lit ''our company''"
  let ?L = "[header_line ?c] @ question_handling_lines ?c @ critical_rules_lines ?c"
  have cn: "company_name_of a = PStr ?c"
    using assms by (simp add: company_name_of_def)
  have "build_prompt_parts rt a = Inr (map PStr ?L)"
    using assms
    by (simp add: build_prompt_parts_def cn call_script_parts_def knowledge_base_parts_def
          header_parts_def py_str_def)
  then have "build_prompt_try rt a = Inr (join_nl ?L)"
    unfolding build_prompt_try_def using py_join_strs [of ?L] by simp
  then show ?thesis
    by (simp only: join_minimal)
qed

section \<open>The builder against the text of the sections\<close>

lemma knowledge_entries_strs:
  "knowledge_entries rt kvs =
     map PStr (concat (map (kb_entry_lines rt) (filter (\<lambda>kv. truthy (snd kv)) kvs)))"
  by (induction kvs) (auto simp: kb_entry_lines_def)

lemma knowledge_files_parts_strs:
  "knowledge_files_parts rt a =
     map PStr (concat (map (kb_entry_lines rt)
                 (filter (\<lambda>kv. truthy (snd kv)) (items (knowledge_files a)))))"
  by (cases "knowledge_files a") (simp_all add: knowledge_files_parts_def knowledge_entries_strs)

lemma product_features_parts_strs:
  "product_features_parts rt biz = map PStr
     (if truthy (get biz (lit ''product_features''))
      then ([nl] @ lit ''PRODUCT FEATURES:'')
           # kb_feature_lines rt (get biz (lit ''product_features''))
      else [])"
  by (simp add: product_features_parts_def kb_feature_lines_def split: pyval.splits)

lemma strs_of_raw_pair:
  "strs_of (if c then [PStr h, v] else []) = Some ps
     \<Longrightarrow> ps = (if c then [h, py_str rt v] else [])"
  by (cases v) (auto simp: py_str_def split: if_splits)

lemma strs_of_raw_pair_str:
  "\<not> c \<or> isinstance_str v
     \<Longrightarrow> strs_of (if c then [PStr h, v] else []) = Some (if c then [h, py_str rt v] else [])"
  by (cases v) (auto simp: py_str_def)

lemma strs_of_opt_line:
  "strs_of (if c then [PStr h] else []) = Some ps \<longleftrightarrow> ps = (if c then [h] else [])"
  by auto

lemma header_parts_strs:
  "header_parts rt a (company_name_of a)
     = map PStr (header_line (py_str rt (company_name_of a)) # company_lines rt a)"
  by (auto simp: header_parts_def company_lines_def Let_def dest: get_truthyD)

lemma call_script_parts_strs:
  "call_script_parts a = Inr sp \<Longrightarrow> sp = map PStr (script_lines a)"
  by (auto simp: call_script_parts_def script_lines_def split: if_splits pyval.splits)

lemma kb_business_lines_none:
  "\<not> (truthy biz \<and> isinstance_dict biz) \<Longrightarrow> kb_business_lines rt biz = []"
  by (auto simp: kb_business_lines_def dest: get_truthyD)

lemma business_info_parts_unfold:
  assumes "truthy (business_info a) \<and> isinstance_dict (business_info a)"
  shows "business_info_parts rt a =
      (if truthy (get (business_info a) (lit ''company_website''))
       then [PStr ([nl] @ lit ''Website: ''
                     @ py_str rt (get (business_info a) (lit ''company_website'')))]
       else [])
    @ (if truthy (get (business_info a) (lit ''industry''))
       then [PStr (lit ''Industry: '' @ py_str rt (get (business_info a) (lit ''industry'')))]
       else [])
    @ product_features_parts rt (business_info a)
    @ (if truthy (get (business_info a) (lit ''pricing_info''))
       then [PStr ([nl] @ lit ''PRICING:''), get (business_info a) (lit ''pricing_info'')]
       else [])
    @ (if truthy (get (business_info a) (lit ''target_customers''))
       then [PStr ([nl] @ lit ''TARGET CUSTOMERS:''),
             get (business_info a) (lit ''target_customers'')]
       else [])"
  using assms unfolding business_info_parts_def Let_def by (rule if_P)

lemma business_info_parts_strs:
  assumes "strs_of (business_info_parts rt a) = Some bs"
  shows "bs = kb_business_lines rt (business_info a)"
proof (cases "truthy (business_info a) \<and> isinstance_dict (business_info a)")
  case False
  then have "business_info_parts rt a = []"
    by (auto simp: business_info_parts_def)
  with False show ?thesis using assms
    by (simp add: kb_business_lines_none)
next
  case True
  let ?biz = "business_info a"
  let ?W = "if truthy (get ?biz (lit ''company_website''))
            then [PStr ([nl] @ lit ''Website: '' @ py_str rt (get ?biz (lit ''company_website'')))]
            else []"
  let ?I = "if truthy (get ?biz (lit ''industry''))
            then [PStr (lit ''Industry: '' @ py_str rt (get ?biz (lit ''industry'')))]
            else []"
  let ?P = "if truthy (get ?biz (lit ''pricing_info''))
            then [PStr ([nl] @ lit ''PRICING:''), get ?biz (lit ''pricing_info'')]
            else []"
  let ?T = "if truthy (get ?biz (lit ''target_customers''))
            then [PStr ([nl] @ lit ''TARGET CUSTOMERS:''), get ?biz (lit ''target_customers'')]
            else []"
  from assms have all: "strs_of (?W @ ?I @ product_features_parts rt ?biz @ ?P @ ?T) = Some bs"
    by (simp only: business_info_parts_unfold [OF True])
  from all obtain ws r1 where w: "strs_of ?W = Some ws"
    and r1: "strs_of (?I @ product_features_parts rt ?biz @ ?P @ ?T) = Some r1"
    and b1: "bs = ws @ r1"
    by (rule strs_of_appendE)
  from r1 obtain ins r2 where i: "strs_of ?I = Some ins"
    and r2: "strs_of (product_features_parts rt ?biz @ ?P @ ?T) = Some r2"
    and b2: "r1 = ins @ r2"
    by (rule strs_of_appendE)
  from r2 obtain fs r3 where f: "strs_of (product_features_parts rt ?biz) = Some fs"
    and r3: "strs_of (?P @ ?T) = Some r3" and b3: "r2 = fs @ r3"
    by (rule strs_of_appendE)
  from r3 obtain ps ts where p: "strs_of ?P = Some ps"
    and t: "strs_of ?T = Some ts" and b4: "r3 = ps @ ts"
    by (rule strs_of_appendE)
  have bs: "bs = ws @ ins @ fs @ ps @ ts"
    by (simp only: b1 b2 b3 b4)
  note w [unfolded strs_of_opt_line] i [unfolded strs_of_opt_line]
    f [unfolded product_features_parts_strs strs_of_map_PStr]
    strs_of_raw_pair [OF p, of rt] strs_of_raw_pair [OF t, of rt]
  with bs show ?thesis
    unfolding kb_business_lines_def by simp
qed

lemma business_info_parts_text:
  assumes "\<not> truthy (get (business_info a) (lit ''pricing_info''))
           \<or> isinstance_str (get (business_info a) (lit ''pricing_info''))"
    and "\<not> truthy (get (business_info a) (lit ''target_customers''))
           \<or> isinstance_str (get (business_info a) (lit ''target_customers''))"
  shows "strs_of (business_info_parts rt a) = Some (kb_business_lines rt (business_info a))"
proof (cases "truthy (business_info a) \<and> isinstance_dict (business_info a)")
  case False
  then have "business_info_parts rt a = []"
    by (auto simp: business_info_parts_def)
  with False show ?thesis
    by (simp add: kb_business_lines_none)
next
  case True
  have "\<exists>bs. strs_of (business_info_parts rt a) = Some bs"
    unfolding business_info_parts_unfold [OF True] strs_of_append product_features_parts_strs
      strs_of_map_PStr
    using strs_of_raw_pair_str [OF assms(1), of _ rt] strs_of_raw_pair_str [OF assms(2), of _ rt]
    by (simp add: strs_of_opt_line)
  then obtain bs where bs: "strs_of (business_info_parts rt a) = Some bs" ..
  from business_info_parts_strs [OF bs] bs show ?thesis by simp
qed

lemma knowledge_base_parts_strs:
  assumes "knowledge_base_parts rt a (company_name_of a) = Inr kb" "strs_of kb = Some ks"
  shows "ks = kb_section_lines rt a"
proof (cases "truthy (knowledge_files a) \<or> truthy (business_info a)")
  case False
  then show ?thesis using assms
    by (auto simp: knowledge_base_parts_def kb_section_lines_def)
next
  case True
  with assms(1) obtain cn where cn: "company_name_of a = PStr cn"
    and kb: "kb = [PStr ([nl] @ [nl] @ banner), PStr (upper rt cn @ lit '' KNOWLEDGE BASE:''),
                   PStr banner]
                 @ business_info_parts rt a @ knowledge_files_parts rt a"
    by (auto simp: knowledge_base_parts_def split: pyval.splits)
  from assms(2) obtain bs where bs: "strs_of (business_info_parts rt a) = Some bs"
    and ks: "ks = [[nl] @ [nl] @ banner, upper rt cn @ lit '' KNOWLEDGE BASE:'', banner] @ bs
       @ concat (map (kb_entry_lines rt)
           (filter (\<lambda>kv. truthy (snd kv)) (items (knowledge_files a))))"
    unfolding kb strs_of_append knowledge_files_parts_strs strs_of_map_PStr by auto
  from business_info_parts_strs [OF bs] ks True cn show ?thesis
    by (simp add: kb_section_lines_def py_str_def)
qed

text \<open>Whenever the \<open>try\<close> block completes, its result is the text of the sections.\<close>

lemma build_prompt_try_text:
  assumes "build_prompt_try rt a = Inr out"
  shows "out = header_line (py_str rt (company_name_of a))
               @ after_nl (company_lines rt a)
               @ after_nl (script_lines a)
               @ after_nl (kb_section_lines rt a)
               @ after_nl (question_handling_lines (py_str rt (company_name_of a)))
               @ after_nl (critical_rules_lines (py_str rt (company_name_of a)))"
proof -
  let ?cn = "py_str rt (company_name_of a)"
  let ?H = "header_parts rt a (company_name_of a)"
  let ?Q = "map PStr (question_handling_lines ?cn)"
  let ?C = "map PStr (critical_rules_lines ?cn)"
  from assms obtain parts where parts: "build_prompt_parts rt a = Inr parts"
    and joined: "py_join parts = Inr out"
    by (auto simp: build_prompt_try_def split: sum.splits)
  from parts obtain sp kb where sp: "call_script_parts a = Inr sp"
    and kb: "knowledge_base_parts rt a (company_name_of a) = Inr kb"
    and parts_eq: "parts = ?H @ sp @ kb @ ?Q @ ?C"
    by (auto simp: build_prompt_parts_def Let_def split: sum.splits)
  from joined obtain strs where strs: "strs_of parts = Some strs" and out: "out = join_nl strs"
    by (auto simp: py_join_def split: option.splits)
  have sp_eq: "sp = map PStr (script_lines a)"
    using sp by (rule call_script_parts_strs)
  from strs have all: "strs_of (?H @ sp @ kb @ ?Q @ ?C) = Some strs"
    by (simp only: parts_eq)
  from all obtain hs r1 where h: "strs_of ?H = Some hs"
    and r1: "strs_of (sp @ kb @ ?Q @ ?C) = Some r1" and e1: "strs = hs @ r1"
    by (rule strs_of_appendE)
  from r1 obtain ss r2 where s: "strs_of sp = Some ss"
    and r2: "strs_of (kb @ ?Q @ ?C) = Some r2" and e2: "r1 = ss @ r2"
    by (rule strs_of_appendE)
  from r2 obtain ks r3 where k: "strs_of kb = Some ks"
    and r3: "strs_of (?Q @ ?C) = Some r3" and e3: "r2 = ks @ r3"
    by (rule strs_of_appendE)
  from r3 obtain qs cs where q: "strs_of ?Q = Some qs"
    and c: "strs_of ?C = Some cs" and e4: "r3 = qs @ cs"
    by (rule strs_of_appendE)
  have hs: "hs = header_line ?cn # company_lines rt a"
    using h by (simp only: header_parts_strs strs_of_map_PStr option.inject)
  have ss: "ss = script_lines a"
    using s by (simp only: sp_eq strs_of_map_PStr option.inject)
  have ks: "ks = kb_section_lines rt a"
    using kb k by (rule knowledge_base_parts_strs)
  have qs: "qs = question_handling_lines ?cn"
    using q by (simp only: strs_of_map_PStr option.inject)
  have cs: "cs = critical_rules_lines ?cn"
    using c by (simp only: strs_of_map_PStr option.inject)
  have "strs = header_line ?cn # (company_lines rt a @ script_lines a @ kb_section_lines rt a
                 @ question_handling_lines ?cn @ critical_rules_lines ?cn)"
    by (simp add: e1 e2 e3 e4 hs ss ks qs cs)
  then show ?thesis
    by (simp only: out join_nl_Cons after_nl_append)
qed

text \<open>The \<open>try\<close> block completes when the values used as text are text.\<close>

lemma build_prompt_try_succeeds:
  assumes "\<not> truthy (sales_script_text a) \<or> isinstance_str (sales_script_text a)"
    and "isinstance_str (company_name_of a)"
    and "\<not> truthy (get (business_info a) (lit ''pricing_info''))
           \<or> isinstance_str (get (business_info a) (lit ''pricing_info''))"
    and "\<not> truthy (get (business_info a) (lit ''target_customers''))
           \<or> isinstance_str (get (business_info a) (lit ''target_customers''))"
  shows "\<exists>out. build_prompt_try rt a = Inr out"
proof -
  have "\<exists>sp. call_script_parts a = Inr (map PStr sp)"
  proof (cases "truthy (sales_script_text a)")
    case False
    then have "call_script_parts a = Inr (map PStr [])"
      by (simp add: call_script_parts_def)
    then show ?thesis ..
  next
    case True
    with assms(1) obtain s where "sales_script_text a = PStr s"
      by (cases "sales_script_text a") auto
    with True have "call_script_parts a = Inr (map PStr (call_script_lines s))"
      by (simp add: call_script_parts_def)
    then show ?thesis ..
  qed
  then obtain sp where sp: "call_script_parts a = Inr (map PStr sp)" ..
  from assms(2) obtain cn where cn: "company_name_of a = PStr cn"
    by (cases "company_name_of a") auto
  obtain kb where kb: "knowledge_base_parts rt a (company_name_of a) = Inr kb"
    and kbs: "\<exists>ks. strs_of kb = Some ks"
    using business_info_parts_text [OF assms(3,4), of rt]
    by (cases "truthy (knowledge_files a) \<or> truthy (business_info a)")
       (auto simp: knowledge_base_parts_def cn strs_of_append knowledge_files_parts_strs
          strs_of_map_PStr)
  have "\<exists>strs. strs_of (header_parts rt a (company_name_of a) @ map PStr sp @ kb
          @ map PStr (question_handling_lines (py_str rt (company_name_of a)))
          @ map PStr (critical_rules_lines (py_str rt (company_name_of a)))) = Some strs"
    using kbs unfolding strs_of_append header_parts_strs strs_of_map_PStr by blast
  then show ?thesis
    by (auto simp: build_prompt_try_def build_prompt_parts_def Let_def sp kb py_join_def)
qed

section \<open>Further facts and the fixtures evaluated\<close>

lemma after_nl_Nil [simp]: "after_nl [] = []"
  by (simp add: after_nl_def)

lemma lit_append: "lit s @ lit t = lit (s @ t)"
  by (simp add: lit_def)

lemma get_falsy: "\<not> truthy d \<Longrightarrow> get d k = PNone"
  by (cases d) (simp_all add: get_def get_default_def)

lemma company_name_of_falsy:
  "\<not> truthy (business_info a) \<Longrightarrow> company_name_of a = PStr (lit ''our company'')"
  by (simp add: company_name_of_def)

lemma script_lines_falsy: "\<not> truthy (sales_script_text a) \<Longrightarrow> script_lines a = []"
  by (cases "sales_script_text a") (simp_all add: script_lines_def)

lemma upper_our_company: "upper rt (lit ''our company'') = lit ''OUR COMPANY''"
  by (simp add: upper_def upper_cp_def lit_def)

text \<open>The fixtures evaluated.\<close>

lemma malformed_agent_fails: "build_prompt_try rt malformed_agent = Inl TypeError"
  by (simp add: build_prompt_try_def build_prompt_parts_def company_name_of_def
        call_script_parts_def knowledge_base_parts_def header_parts_def business_info_parts_def
        product_features_parts_def knowledge_files_parts_def get_def get_default_def lit_eq_iff
        lit_Nil_iff py_join_def call_script_lines_def question_handling_lines_def
        critical_rules_lines_def Let_def malformed_agent_def scripted_agent_def plain_agent_def)

lemma scripted_agent_prompt:
  "build_prompt_try rt scripted_agent =
     Inr (header_line (lit ''our company'')
          @ after_nl (call_script_lines (lit ''Hi, this is Ava.''))
          @ after_nl (question_handling_lines (lit ''our company''))
          @ after_nl (critical_rules_lines (lit ''our company'')))"
proof -
  have f: "\<not> truthy (business_info scripted_agent)" "\<not> truthy (knowledge_files scripted_agent)"
    "sales_script_text scripted_agent = PStr (lit ''Hi, this is Ava.'')"
    by (simp_all add: scripted_agent_def plain_agent_def)
  from f have "\<exists>out. build_prompt_try rt scripted_agent = Inr out"
    by (intro build_prompt_try_succeeds) (simp_all add: company_name_of_falsy get_falsy)
  then obtain out where out: "build_prompt_try rt scripted_agent = Inr out" ..
  from build_prompt_try_text [OF out] f show ?thesis
    by (simp add: out company_name_of_falsy py_str_def company_lines_def get_falsy
          script_lines_def lit_Nil_iff kb_section_lines_def after_nl_def)
qed


lemma acme_company_name: "company_name_of acme_agent = PStr (lit ''Acme'')"
  by (simp add: company_name_of_def acme_agent_def get_default_def)

lemma acme_kb_section_lines:
  "kb_section_lines rt acme_agent =
     [[nl] @ [nl] @ banner,
      lit ''ACME KNOWLEDGE BASE:'',
      banner,
      [nl] @ lit ''Website: acme.example'',
      [nl] @ lit ''PRODUCT FEATURES:'',
      [bullet] @ lit '' Fast'',
      [bullet] @ lit '' Safe'',
      [nl] @ lit ''PRICING:'',
      lit ''10 per seat'',
      [nl] @ lit ''RETURN POLICY:'',
      lit ''30 days'']"
  unfolding kb_section_lines_def acme_company_name
  by (simp add: acme_agent_def kb_business_lines_def kb_feature_lines_def kb_entry_lines_def
        get_def get_default_def lit_eq_iff lit_Nil_iff py_str_def)
     (simp add: lit_def upper_def upper_cp_def replace_underscore_def)

lemma acme_agent_prompt:
  "build_prompt_try rt acme_agent =
     Inr (header_line (lit ''Acme'')
          @ after_nl (call_script_lines (lit ''Hi, this is Ava.''))
          @ after_nl (kb_section_lines rt acme_agent)
          @ after_nl (question_handling_lines (lit ''Acme''))
          @ after_nl (critical_rules_lines (lit ''Acme'')))"
proof -
  have "\<exists>out. build_prompt_try rt acme_agent = Inr out"
    by (rule build_prompt_try_succeeds)
       (simp_all add: acme_company_name,
        simp_all add: acme_agent_def get_def get_default_def lit_eq_iff)
  then obtain out where out: "build_prompt_try rt acme_agent = Inr out" ..
  have "company_lines rt acme_agent = []"
    by (simp add: company_lines_def acme_agent_def get_def get_default_def lit_eq_iff)
  moreover have "script_lines acme_agent = call_script_lines (lit ''Hi, this is Ava.'')"
    by (simp add: script_lines_def acme_agent_def lit_Nil_iff)
  ultimately show ?thesis
    using build_prompt_try_text [OF out]
    by (simp add: out acme_company_name py_str_def)
qed

lemma build_prompt_try_only_falsy_entry:
  assumes "\<not> truthy (sales_script_text a)" "\<not> truthy (business_info a)"
    "knowledge_files a = PDict [(k, v)]" "\<not> truthy v"
  shows "build_prompt_try rt a =
     Inr (header_line (lit ''our company'')
          @ after_nl [[nl] @ [nl] @ banner, lit ''OUR COMPANY KNOWLEDGE BASE:'', banner]
          @ after_nl (question_handling_lines (lit ''our company''))
          @ after_nl (critical_rules_lines (lit ''our company'')))"
proof -
  have "\<exists>out. build_prompt_try rt a = Inr out"
    using assms
    by (intro build_prompt_try_succeeds) (simp_all add: company_name_of_falsy get_falsy)
  then obtain out where out: "build_prompt_try rt a = Inr out" ..
  have "kb_section_lines rt a = [[nl] @ [nl] @ banner, lit ''OUR COMPANY KNOWLEDGE BASE:'', banner]"
    using assms
    by (simp add: kb_section_lines_def company_name_of_falsy py_str_def upper_our_company
          kb_business_lines_none lit_append)
  with build_prompt_try_text [OF out] assms show ?thesis
    by (simp add: out company_name_of_falsy py_str_def company_lines_def get_falsy
          script_lines_falsy)
qed

section \<open>The prompt builder: claims\<close>

text \<open>
  C1. For an agent that is present and has no sales script, no business info and no
  knowledge files, the built prompt is exactly the header line with the company name
  ``our company'', the question handling block and the critical rules block, in this
  order, separated by line breaks; the call script section and the knowledge base
  section contribute nothing.
\<close>

theorem build_system_prompt_no_optional_fields:
  assumes "sales_script_text a = PNone" "business_info a = PNone" "knowledge_files a = PNone"
  shows "build_system_prompt rt base (Some a) =
           header_line (lit ''our company'') @ [nl]
           @ join_nl (question_handling_lines (lit ''our company'')) @ [nl]
           @ join_nl (critical_rules_lines (lit ''our company''))
         \<and> call_script_parts a = Inr []
         \<and> knowledge_base_parts rt a (company_name_of a) = Inr []"
  using assms build_prompt_try_falsy [of a rt]
  by (simp add: build_system_prompt_def call_script_parts_def knowledge_base_parts_def)

theorem build_system_prompt_no_optional_fields_witness:
  "sales_script_text plain_agent = PNone \<and> business_info plain_agent = PNone
   \<and> knowledge_files plain_agent = PNone
   \<and> build_system_prompt ascii_rt (lit ''Be friendly.'') (Some plain_agent) =
           header_line (lit ''our company'') @ [nl]
           @ join_nl (question_handling_lines (lit ''our company'')) @ [nl]
           @ join_nl (critical_rules_lines (lit ''our company''))
   \<and> call_script_parts plain_agent = Inr []
   \<and> knowledge_base_parts ascii_rt plain_agent (company_name_of plain_agent) = Inr []"
  using build_system_prompt_no_optional_fields [of plain_agent ascii_rt "lit ''Be friendly.''"]
  by (simp add: plain_agent_def)

text \<open>
  C2, as amended. The claim holds for every agent only up to the \<open>except\<close> branch: when
  the \<open>try\<close> block raises, the result is the base prompt, which need not contain the
  script. Whenever the block completes and \<open>sales_script_text\<close> is a non-empty string
  \<open>S\<close>, the result contains \<open>S\<close> verbatim, after the header line and before the
  question handling block.
\<close>

theorem script_between_header_and_questions:
  assumes "sales_script_text a = PStr S" "S \<noteq> []" "build_prompt_try rt a = Inr out"
  shows "build_system_prompt rt base (Some a) = out
       \<and> sublist S out
       \<and> (\<exists>before kb. out = header_line (py_str rt (company_name_of a)) @ before @ S @ kb
              @ [nl] @ join_nl (question_handling_lines (py_str rt (company_name_of a)))
              @ [nl] @ join_nl (critical_rules_lines (py_str rt (company_name_of a))))"
proof -
  let ?cn = "py_str rt (company_name_of a)"
  have sl: "script_lines a = butlast (call_script_lines S) @ [[nl] @ S]"
    using assms(1,2) by (simp add: script_lines_def call_script_lines_def)
  have out: "out = header_line ?cn
      @ (after_nl (company_lines rt a) @ after_nl (butlast (call_script_lines S)) @ [nl, nl])
      @ S @ after_nl (kb_section_lines rt a)
      @ [nl] @ join_nl (question_handling_lines ?cn)
      @ [nl] @ join_nl (critical_rules_lines ?cn)"
    using build_prompt_try_text [OF assms(3)]
    by (simp add: sl after_nl_append after_nl_ne [OF question_handling_lines_ne]
          after_nl_ne [OF critical_rules_lines_ne])
       (simp add: after_nl_def)
  have "sublist S out"
    by (subst out, unfold sublist_def) (metis append.assoc)
  moreover have "build_system_prompt rt base (Some a) = out"
    using assms(3) by (simp add: build_system_prompt_def)
  ultimately show ?thesis
    using out by blast
qed

theorem script_between_header_and_questions_witness:
  "sales_script_text scripted_agent = PStr (lit ''Hi, this is Ava.'')
   \<and> lit ''Hi, this is Ava.'' \<noteq> []
   \<and> build_prompt_try ascii_rt scripted_agent =
        Inr (header_line (lit ''our company'')
             @ after_nl (call_script_lines (lit ''Hi, this is Ava.''))
             @ after_nl (question_handling_lines (lit ''our company''))
             @ after_nl (critical_rules_lines (lit ''our company'')))
   \<and> sublist (lit ''Hi, this is Ava.'')
        (build_system_prompt ascii_rt (lit ''Be friendly.'') (Some scripted_agent))"
proof -
  have h1: "sales_script_text scripted_agent = PStr (lit ''Hi, this is Ava.'')"
    by (simp add: scripted_agent_def)
  have h2: "lit ''Hi, this is Ava.'' \<noteq> []"
    by (simp add: lit_Nil_iff)
  note h3 = scripted_agent_prompt [of ascii_rt]
  from script_between_header_and_questions [OF h1 h2 h3, of "lit ''Be friendly.''"] h1 h2 h3
  show ?thesis by simp
qed

text \<open>
  C2 as stated fails: with pricing given as a nested dict the join raises, the base
  prompt is returned, and it does not contain the script.
\<close>

theorem script_lost_on_malformed_business_info:
  "sales_script_text malformed_agent = PStr (lit ''Hi, this is Ava.'')
   \<and> lit ''Hi, this is Ava.'' \<noteq> []
   \<and> build_system_prompt ascii_rt (lit ''Be friendly.'') (Some malformed_agent)
       = lit ''Be friendly.''
   \<and> \<not> sublist (lit ''Hi, this is Ava.'')
          (build_system_prompt ascii_rt (lit ''Be friendly.'') (Some malformed_agent))"
proof -
  have out: "build_system_prompt ascii_rt (lit ''Be friendly.'') (Some malformed_agent)
       = lit ''Be friendly.''"
    by (simp add: build_system_prompt_def malformed_agent_fails)
  have "\<not> sublist (lit ''Hi, this is Ava.'') (lit ''Be friendly.'')"
  proof
    assume "sublist (lit ''Hi, this is Ava.'') (lit ''Be friendly.'')"
    then have "length (lit ''Hi, this is Ava.'') \<le> length (lit ''Be friendly.'')"
      by (rule sublist_length_le)
    then show False by (simp add: lit_def)
  qed
  with out show ?thesis
    by (simp add: malformed_agent_def scripted_agent_def lit_Nil_iff)
qed


text \<open>
  C3, as amended. Whenever the \<open>try\<close> block completes, the result is the header line
  followed by the company line, the call script, the knowledge base section, the question
  handling block and the critical rules block. The knowledge base section is there if and
  only if \<open>knowledge_files\<close> or \<open>business_info\<close> is truthy; it holds, in this order,
  website, industry, product features (a bullet per element of a sequence, a string
  verbatim), pricing, target customers, each when its value is truthy, then every
  \<open>knowledge_files\<close> entry whose value is truthy, as its label upper-cased with
  underscores as spaces followed by its value as text.
\<close>

theorem knowledge_base_section_text:
  assumes "build_prompt_try rt a = Inr out"
  shows "build_system_prompt rt base (Some a) = out
       \<and> out = header_line (py_str rt (company_name_of a))
               @ after_nl (company_lines rt a)
               @ after_nl (script_lines a)
               @ after_nl (kb_section_lines rt a)
               @ after_nl (question_handling_lines (py_str rt (company_name_of a)))
               @ after_nl (critical_rules_lines (py_str rt (company_name_of a)))
       \<and> (kb_section_lines rt a \<noteq> []
            \<longleftrightarrow> truthy (knowledge_files a) \<or> truthy (business_info a))"
  using assms build_prompt_try_text [OF assms]
  by (simp add: build_system_prompt_def kb_section_lines_def)

theorem knowledge_base_section_text_witness:
  "build_prompt_try ascii_rt acme_agent =
     Inr (header_line (lit ''Acme'')
          @ after_nl (call_script_lines (lit ''Hi, this is Ava.''))
          @ after_nl (kb_section_lines ascii_rt acme_agent)
          @ after_nl (question_handling_lines (lit ''Acme''))
          @ after_nl (critical_rules_lines (lit ''Acme'')))
   \<and> build_system_prompt ascii_rt (lit ''Be friendly.'') (Some acme_agent) =
       header_line (lit ''Acme'')
          @ after_nl (call_script_lines (lit ''Hi, this is Ava.''))
          @ after_nl (kb_section_lines ascii_rt acme_agent)
          @ after_nl (question_handling_lines (lit ''Acme''))
          @ after_nl (critical_rules_lines (lit ''Acme''))
   \<and> kb_section_lines ascii_rt acme_agent =
     [[nl] @ [nl] @ banner,
      lit ''ACME KNOWLEDGE BASE:'',
      banner,
      [nl] @ lit ''Website: acme.example'',
      [nl] @ lit ''PRODUCT FEATURES:'',
      [bullet] @ lit '' Fast'',
      [bullet] @ lit '' Safe'',
      [nl] @ lit ''PRICING:'',
      lit ''10 per seat'',
      [nl] @ lit ''RETURN POLICY:'',
      lit ''30 days'']"
  using knowledge_base_section_text [OF acme_agent_prompt, of ascii_rt "lit ''Be friendly.''"]
    acme_agent_prompt [of ascii_rt] acme_kb_section_lines [of ascii_rt]
  by simp

text \<open>
  C3 as stated fails: an entry with an empty value is not rendered, where the claim has
  its label and its value; and with \<open>business_info\<close> present the section is absent
  from the result when the \<open>try\<close> block raises.
\<close>

theorem knowledge_base_claim_counterexample:
  "knowledge_files faq_agent = PDict [(lit ''faq'', PStr [])]
   \<and> kb_entries_as_claimed ascii_rt (items (knowledge_files faq_agent))
       = [[nl] @ lit ''FAQ:'', []]
   \<and> knowledge_files_parts ascii_rt faq_agent = []
   \<and> truthy (business_info malformed_agent)
   \<and> build_system_prompt ascii_rt (lit ''Be friendly.'') (Some malformed_agent)
       = lit ''Be friendly.''"
proof -
  have "kb_entries_as_claimed ascii_rt (items (knowledge_files faq_agent))
       = [[nl] @ lit ''FAQ:'', []]"
    by (simp add: kb_entries_as_claimed_def kb_entry_lines_def faq_agent_def py_str_def)
       (simp add: lit_def upper_def upper_cp_def replace_underscore_def)
  moreover have "knowledge_files_parts ascii_rt faq_agent = []"
    by (simp add: knowledge_files_parts_def faq_agent_def)
  moreover have "build_system_prompt ascii_rt (lit ''Be friendly.'') (Some malformed_agent)
       = lit ''Be friendly.''"
    by (simp add: build_system_prompt_def malformed_agent_fails)
  ultimately show ?thesis
    by (simp add: faq_agent_def malformed_agent_def)
qed

text \<open>
  C4. The builder returns a string in every case: the base prompt when the agent is
  absent, and the base prompt when the \<open>try\<close> block raises.
\<close>

theorem build_system_prompt_never_raises:
  "build_system_prompt rt base None = base
   \<and> (build_prompt_try rt a = Inl e \<longrightarrow> build_system_prompt rt base (Some a) = base)
   \<and> (build_system_prompt rt base (Some a) = base
        \<or> build_system_prompt rt base (Some a)
            = header_line (py_str rt (company_name_of a))
              @ after_nl (company_lines rt a)
              @ after_nl (script_lines a)
              @ after_nl (kb_section_lines rt a)
              @ after_nl (question_handling_lines (py_str rt (company_name_of a)))
              @ after_nl (critical_rules_lines (py_str rt (company_name_of a))))"
proof (cases "build_prompt_try rt a")
  case (Inl err)
  then show ?thesis
    by (simp add: build_system_prompt_def)
next
  case (Inr out)
  from build_prompt_try_text [OF Inr] Inr show ?thesis
    by (simp add: build_system_prompt_def)
qed

theorem build_system_prompt_never_raises_witness:
  "build_prompt_try ascii_rt malformed_agent = Inl TypeError
   \<and> build_system_prompt ascii_rt (lit ''Be friendly.'') (Some malformed_agent)
       = lit ''Be friendly.''
   \<and> build_system_prompt ascii_rt (lit ''Be friendly.'') None = lit ''Be friendly.''"
  using build_system_prompt_never_raises
          [of ascii_rt "lit ''Be friendly.''" malformed_agent TypeError]
    malformed_agent_fails [of ascii_rt]
  by simp

text \<open>
  C5. The built prompt is a function of its inputs: equal base prompts and equal agents
  give equal prompts, and of the agent only \<open>business_info\<close>, \<open>sales_script_text\<close>
  and \<open>knowledge_files\<close> matter. No clock and no random source is read.
\<close>

theorem build_system_prompt_deterministic:
  "(base = base' \<and> agent_obj = agent_obj'
      \<longrightarrow> build_system_prompt rt base agent_obj = build_system_prompt rt base' agent_obj')
 \<and> (business_info a = business_info b \<and> sales_script_text a = sales_script_text b
      \<and> knowledge_files a = knowledge_files b
      \<longrightarrow> build_system_prompt rt base (Some a) = build_system_prompt rt base (Some b))"
proof -
  have "build_prompt_try rt a = build_prompt_try rt b"
    if "business_info a = business_info b" "sales_script_text a = sales_script_text b"
       "knowledge_files a = knowledge_files b"
    unfolding build_prompt_try_def build_prompt_parts_def company_name_of_def header_parts_def
      call_script_parts_def knowledge_base_parts_def business_info_parts_def
      knowledge_files_parts_def that ..
  then show ?thesis
    by (auto simp: build_system_prompt_def)
qed

theorem build_system_prompt_deterministic_witness:
  "business_info acme_agent = business_info (acme_agent\<lparr>name := PStr (lit ''Bob'')\<rparr>)
   \<and> sales_script_text acme_agent = sales_script_text (acme_agent\<lparr>name := PStr (lit ''Bob'')\<rparr>)
   \<and> knowledge_files acme_agent = knowledge_files (acme_agent\<lparr>name := PStr (lit ''Bob'')\<rparr>)
   \<and> build_system_prompt ascii_rt (lit ''Be friendly.'') (Some acme_agent)
       = build_system_prompt ascii_rt (lit ''Be friendly.'')
           (Some (acme_agent\<lparr>name := PStr (lit ''Bob'')\<rparr>))"
  using build_system_prompt_deterministic
          [of "lit ''Be friendly.''" "lit ''Be friendly.''" "Some acme_agent" "Some acme_agent"
              ascii_rt acme_agent "acme_agent\<lparr>name := PStr (lit ''Bob'')\<rparr>"]
  by simp


text \<open>
  C10. The optional sections are gated on truthiness: an empty script gives no call
  script section; empty \<open>business_info\<close> and \<open>knowledge_files\<close> give no knowledge base
  section; a \<open>knowledge_files\<close> entry with a falsy value gives neither its label nor a
  value line; and the prompt is built in these cases.
\<close>

theorem sections_gated_on_truthiness:
  "(sales_script_text a = PStr [] \<longrightarrow> call_script_parts a = Inr [])
 \<and> (business_info a = PDict [] \<and> knowledge_files a = PDict []
      \<longrightarrow> knowledge_base_parts rt a (company_name_of a) = Inr [])
 \<and> (\<not> truthy v
      \<longrightarrow> knowledge_entries rt (pre @ (k, v) # rest) = knowledge_entries rt (pre @ rest))
 \<and> (sales_script_text a = PStr [] \<and> business_info a = PDict [] \<and> knowledge_files a = PDict []
      \<longrightarrow> build_system_prompt rt base (Some a) =
            header_line (lit ''our company'') @ [nl]
            @ join_nl (question_handling_lines (lit ''our company'')) @ [nl]
            @ join_nl (critical_rules_lines (lit ''our company'')))
 \<and> (\<not> truthy (sales_script_text a) \<and> \<not> truthy (business_info a)
      \<and> knowledge_files a = PDict [(k, v)] \<and> \<not> truthy v
      \<longrightarrow> build_system_prompt rt base (Some a) =
            header_line (lit ''our company'')
            @ after_nl [[nl] @ [nl] @ banner, lit ''OUR COMPANY KNOWLEDGE BASE:'', banner]
            @ after_nl (question_handling_lines (lit ''our company''))
            @ after_nl (critical_rules_lines (lit ''our company'')))"
proof -
  have "knowledge_entries rt (pre @ (k, v) # rest) = knowledge_entries rt (pre @ rest)"
    if "\<not> truthy v"
    using that by (induction pre) auto
  moreover have "build_system_prompt rt base (Some a) =
            header_line (lit ''our company'') @ [nl]
            @ join_nl (question_handling_lines (lit ''our company'')) @ [nl]
            @ join_nl (critical_rules_lines (lit ''our company''))"
    if "sales_script_text a = PStr [] \<and> business_info a = PDict [] \<and> knowledge_files a = PDict []"
    using that build_prompt_try_falsy [of a rt] by (simp add: build_system_prompt_def)
  moreover have "build_system_prompt rt base (Some a) =
            header_line (lit ''our company'')
            @ after_nl [[nl] @ [nl] @ banner, lit ''OUR COMPANY KNOWLEDGE BASE:'', banner]
            @ after_nl (question_handling_lines (lit ''our company''))
            @ after_nl (critical_rules_lines (lit ''our company''))"
    if "\<not> truthy (sales_script_text a) \<and> \<not> truthy (business_info a)
      \<and> knowledge_files a = PDict [(k, v)] \<and> \<not> truthy v"
    using that build_prompt_try_only_falsy_entry [of a k v rt]
    by (simp add: build_system_prompt_def)
  ultimately show ?thesis
    by (simp add: call_script_parts_def knowledge_base_parts_def)
qed

theorem sections_gated_on_truthiness_witness:
  "sales_script_text empty_fields_agent = PStr []
   \<and> business_info empty_fields_agent = PDict [] \<and> knowledge_files empty_fields_agent = PDict []
   \<and> call_script_parts empty_fields_agent = Inr []
   \<and> knowledge_base_parts ascii_rt empty_fields_agent (company_name_of empty_fields_agent) = Inr []
   \<and> build_system_prompt ascii_rt (lit ''Be friendly.'') (Some empty_fields_agent) =
        header_line (lit ''our company'') @ [nl]
        @ join_nl (question_handling_lines (lit ''our company'')) @ [nl]
        @ join_nl (critical_rules_lines (lit ''our company''))
   \<and> \<not> truthy (PStr [])
   \<and> knowledge_entries ascii_rt ([(lit ''hours'', PStr (lit ''9-5''))] @ (lit ''faq'', PStr []) # [])
       = knowledge_entries ascii_rt ([(lit ''hours'', PStr (lit ''9-5''))] @ [])
   \<and> knowledge_files faq_agent = PDict [(lit ''faq'', PStr [])]
   \<and> build_system_prompt ascii_rt (lit ''Be friendly.'') (Some faq_agent) =
        header_line (lit ''our company'')
        @ after_nl [[nl] @ [nl] @ banner, lit ''OUR COMPANY KNOWLEDGE BASE:'', banner]
        @ after_nl (question_handling_lines (lit ''our company''))
        @ after_nl (critical_rules_lines (lit ''our company''))"
  using sections_gated_on_truthiness
          [of empty_fields_agent ascii_rt "PStr []" "[(lit ''hours'', PStr (lit ''9-5''))]"
              "lit ''faq''" "[]" "lit ''Be friendly.''"]
        sections_gated_on_truthiness
          [of faq_agent ascii_rt "PStr []" "[]" "lit ''faq''" "[]" "lit ''Be friendly.''"]
  by (simp add: empty_fields_agent_def faq_agent_def plain_agent_def)

section \<open>The client: facts\<close>

lemma strftime_length: "length (strftime dt) = 14"
  by (simp add: strftime_def pad2_def pad4_def)

lemma get_name_create_request:
  "get (json (create_request rt svc nm sp v l ag)) (lit ''name'') = PStr nm"
  by (simp add: create_request_def create_payload_def get_def get_default_def Let_def)

lemma get_description_create_request:
  "get (json (create_request rt svc nm sp v l ag)) (lit ''description'')
     = PStr (description_of (build_system_prompt rt sp ag))"
  by (simp add: create_request_def create_payload_def get_def get_default_def Let_def lit_eq_iff)

text \<open>Every run that returns has made its first request.\<close>

lemma create_agent_sent_prefix:
  "create_agent rt ev svc nm sp v l ag w = Some y \<Longrightarrow>
     prefix (sent w @ [create_request rt svc nm sp v l ag]) (sent (snd y))"
proof (induction rt ev svc nm sp v l ag w y rule: create_agent.raw_induct [rotated 1, consumes 1])
  case (1 f rt ev svc nm sp v l ag w y)
  let ?req = "create_request rt svc nm sp v l ag"
  let ?w1 = "w\<lparr>sent := sent w @ [?req]\<rparr>"
  show ?case
  proof (cases "\<exists>body. transport ev (sent w) ?req = Response 409 body")
    case True
    then obtain body where resp: "transport ev (sent w) ?req = Response 409 body" ..
    with 1(2) have run:
      "f rt ev svc (nm @ lit ''_'' @ strftime (clock ev (clock_reads w + 1))) sp v l ag
           (?w1\<lparr>clock_reads := clock_reads w + 2\<rparr>) = Some y"
      by (simp add: post_def retry_name_def)
    from 1(1) [OF run] show ?thesis
      by (auto simp: prefix_def)
  next
    case False
    with 1(2) have "y = (PNone, ?w1) \<or> (\<exists>b. y = (config_id_of b, ?w1))"
      by (auto simp: post_def split: outcome.splits if_splits)
    then show ?thesis by auto
  qed
qed

lemma create_agent_depth_409:
  assumes "0 < depth"
    and "transport ev (sent w) (create_request rt svc nm sp v l ag) = Response 409 body"
  shows "create_agent_depth depth rt ev svc nm sp v l ag w
       = create_agent_depth (depth - 1) rt ev svc
           (nm @ lit ''_'' @ strftime (clock ev (clock_reads w + 1))) sp v l ag
           (w\<lparr>sent := sent w @ [create_request rt svc nm sp v l ag],
              clock_reads := clock_reads w + 2\<rparr>)"
  using assms by (cases depth) (simp_all add: post_def retry_name_def)

lemma create_agent_depth_201:
  assumes "0 < depth"
    and "transport ev (sent w) (create_request rt svc nm sp v l ag) = Response 201 body"
  shows "create_agent_depth depth rt ev svc nm sp v l ag w
       = (config_id_of body, w\<lparr>sent := sent w @ [create_request rt svc nm sp v l ag]\<rparr>)"
  using assms by (cases depth) (simp_all add: post_def)

lemma create_agent_depth_final:
  assumes "0 < depth"
    and "\<forall>body. transport ev (sent w) (create_request rt svc nm sp v l ag) \<noteq> Response 409 body"
  shows "\<exists>r. create_agent_depth depth rt ev svc nm sp v l ag w
       = (r, w\<lparr>sent := sent w @ [create_request rt svc nm sp v l ag]\<rparr>)"
  using assms by (cases depth) (auto simp: post_def split: outcome.splits)

text \<open>A run only adds requests, and with room for one invocation it makes its first.\<close>

lemma create_agent_depth_sent_prefix:
  "0 < depth \<Longrightarrow>
     prefix (sent w @ [create_request rt svc nm sp v l ag])
       (sent (snd (create_agent_depth depth rt ev svc nm sp v l ag w)))"
proof (induction depth arbitrary: nm w)
  case 0
  then show ?case by simp
next
  case (Suc depth)
  let ?req = "create_request rt svc nm sp v l ag"
  let ?nm' = "nm @ lit ''_'' @ strftime (clock ev (clock_reads w + 1))"
  let ?w2 = "w\<lparr>sent := sent w @ [?req], clock_reads := clock_reads w + 2\<rparr>"
  show ?case
  proof (cases "\<exists>body. transport ev (sent w) ?req = Response 409 body")
    case True
    then obtain body where resp: "transport ev (sent w) ?req = Response 409 body" ..
    have step: "create_agent_depth (Suc depth) rt ev svc nm sp v l ag w
        = create_agent_depth depth rt ev svc ?nm' sp v l ag ?w2"
      using create_agent_depth_409 [OF _ resp, of "Suc depth"] by simp
    show ?thesis
    proof (cases depth)
      case 0
      then show ?thesis unfolding step by simp
    next
      case (Suc d)
      then have "0 < depth" by simp
      from Suc.IH [OF this, of ?w2 ?nm'] show ?thesis
        unfolding step by (auto simp: prefix_def)
    qed
  next
    case False
    then have "\<forall>body. transport ev (sent w) ?req \<noteq> Response 409 body" by simp
    from create_agent_depth_final [OF _ this, of "Suc depth"] show ?thesis
      by auto
  qed
qed

text \<open>Under a transport that always answers 409 the depth alone ends the run.\<close>

lemma create_agent_depth_all_conflicts:
  assumes "\<forall>hist rq. transport ev hist rq = Response 409 body"
  shows "fst (create_agent_depth n rt ev svc nm sp v l ag w) = PNone
       \<and> length (sent (snd (create_agent_depth n rt ev svc nm sp v l ag w))) = length (sent w) + n"
proof (induction n arbitrary: nm w)
  case 0
  then show ?case by simp
next
  case (Suc n)
  have resp: "transport ev (sent w) (create_request rt svc nm sp v l ag) = Response 409 body"
    using assms by simp
  have "create_agent_depth (Suc n) rt ev svc nm sp v l ag w
      = create_agent_depth n rt ev svc
           (nm @ lit ''_'' @ strftime (clock ev (clock_reads w + 1))) sp v l ag
           (w\<lparr>sent := sent w @ [create_request rt svc nm sp v l ag],
              clock_reads := clock_reads w + 2\<rparr>)"
    using create_agent_depth_409 [OF _ resp, of "Suc n"] by simp
  with Suc.IH show ?case
    by (simp only:) simp
qed

text \<open>A run of \<open>create_agent\<close> that returns is the run of \<open>create_agent_depth\<close> at
  every sufficient depth.\<close>

lemma create_agent_depth_agrees:
  "create_agent rt ev svc nm sp v l ag w = Some y \<Longrightarrow>
     \<exists>d0. \<forall>d\<ge>d0. create_agent_depth d rt ev svc nm sp v l ag w = y"
proof (induction rt ev svc nm sp v l ag w y rule: create_agent.raw_induct [rotated 1, consumes 1])
  case (1 f rt ev svc nm sp v l ag w y)
  let ?req = "create_request rt svc nm sp v l ag"
  let ?w1 = "w\<lparr>sent := sent w @ [?req]\<rparr>"
  let ?nm' = "nm @ lit ''_'' @ strftime (clock ev (clock_reads w + 1))"
  show ?case
  proof (cases "\<exists>body. transport ev (sent w) ?req = Response 409 body")
    case True
    then obtain body where resp: "transport ev (sent w) ?req = Response 409 body" ..
    with 1(2) have run:
      "f rt ev svc ?nm' sp v l ag (?w1\<lparr>clock_reads := clock_reads w + 2\<rparr>) = Some y"
      by (simp add: post_def retry_name_def)
    from 1(1) [OF run] obtain d0 where d0:
      "\<forall>d\<ge>d0. create_agent_depth d rt ev svc ?nm' sp v l ag
                 (?w1\<lparr>clock_reads := clock_reads w + 2\<rparr>) = y" ..
    have "\<forall>d\<ge>Suc d0. create_agent_depth d rt ev svc nm sp v l ag w = y"
    proof (intro allI impI)
      fix d assume "Suc d0 \<le> d"
      then have "0 < d" "d0 \<le> d - 1" by simp_all
      with create_agent_depth_409 [OF \<open>0 < d\<close> resp] d0
      show "create_agent_depth d rt ev svc nm sp v l ag w = y" by simp
    qed
    then show ?thesis ..
  next
    case False
    have "\<forall>d\<ge>Suc 0. create_agent_depth d rt ev svc nm sp v l ag w = y"
    proof (intro allI impI)
      fix d assume "Suc 0 \<le> d"
      then obtain d' where "d = Suc d'" by (cases d) auto
      with False 1(2) show "create_agent_depth d rt ev svc nm sp v l ag w = y"
        by (auto simp: post_def split: outcome.splits if_splits)
    qed
    then show ?thesis ..
  qed
qed

section \<open>The client: claims\<close>

text \<open>
  C6. \<open>create_agent\<close> returns the identifier of the response body when the response has
  status 201 and a body with a non-empty string \<open>id\<close>; it returns \<open>None\<close> when the
  status is 500, and \<open>None\<close> when the transport raises a timeout or a connection error,
  no exception leaving the call.
\<close>

theorem create_agent_outcomes:
  "(transport ev (sent w) (create_request rt svc nm sp v l ag) = Response 201 (Some (PDict d))
      \<and> map_of d (lit ''id'') = Some (PStr cid) \<and> cid \<noteq> []
    \<longrightarrow> create_agent rt ev svc nm sp v l ag w
          = Some (PStr cid, w\<lparr>sent := sent w @ [create_request rt svc nm sp v l ag]\<rparr>))
 \<and> (transport ev (sent w) (create_request rt svc nm sp v l ag) = Response 500 body
    \<longrightarrow> create_agent rt ev svc nm sp v l ag w
          = Some (PNone, w\<lparr>sent := sent w @ [create_request rt svc nm sp v l ag]\<rparr>))
 \<and> (transport ev (sent w) (create_request rt svc nm sp v l ag) = Timeout
    \<longrightarrow> create_agent rt ev svc nm sp v l ag w
          = Some (PNone, w\<lparr>sent := sent w @ [create_request rt svc nm sp v l ag]\<rparr>))
 \<and> (transport ev (sent w) (create_request rt svc nm sp v l ag) = ConnectionError
    \<longrightarrow> create_agent rt ev svc nm sp v l ag w
          = Some (PNone, w\<lparr>sent := sent w @ [create_request rt svc nm sp v l ag]\<rparr>))"
  by (subst create_agent.simps, subst create_agent.simps, subst create_agent.simps,
      subst create_agent.simps)
     (simp add: post_def config_id_of_def get_def get_default_def)

theorem create_agent_outcomes_witness:
  "transport (mock_env [Response 201 (Some (PDict [(lit ''id'', PStr (lit ''cfg-1''))]))]) (sent fresh_world) (create_request ascii_rt demo_service (lit ''Ava'') (lit ''Be friendly.'') (lit ''ITO'') (lit ''en'') None) = Response 201 (Some (PDict [(lit ''id'', PStr (lit ''cfg-1''))]))
   \<and> map_of [(lit ''id'', PStr (lit ''cfg-1''))] (lit ''id'') = Some (PStr (lit ''cfg-1''))
   \<and> lit ''cfg-1'' \<noteq> []
   \<and> create_agent ascii_rt (mock_env [Response 201 (Some (PDict [(lit ''id'', PStr (lit ''cfg-1''))]))]) demo_service (lit ''Ava'') (lit ''Be friendly.'') (lit ''ITO'') (lit ''en'') None fresh_world = Some (PStr (lit ''cfg-1''), fresh_world\<lparr>sent := sent fresh_world @ [create_request ascii_rt demo_service (lit ''Ava'') (lit ''Be friendly.'') (lit ''ITO'') (lit ''en'') None]\<rparr>)
   \<and> transport (mock_env [Response 500 None]) (sent fresh_world) (create_request ascii_rt demo_service (lit ''Ava'') (lit ''Be friendly.'') (lit ''ITO'') (lit ''en'') None) = Response 500 None
   \<and> create_agent ascii_rt (mock_env [Response 500 None]) demo_service (lit ''Ava'') (lit ''Be friendly.'') (lit ''ITO'') (lit ''en'') None fresh_world = Some (PNone, fresh_world\<lparr>sent := sent fresh_world @ [create_request ascii_rt demo_service (lit ''Ava'') (lit ''Be friendly.'') (lit ''ITO'') (lit ''en'') None]\<rparr>)
   \<and> transport (mock_env [Timeout]) (sent fresh_world) (create_request ascii_rt demo_service (lit ''Ava'') (lit ''Be friendly.'') (lit ''ITO'') (lit ''en'') None) = Timeout
   \<and> create_agent ascii_rt (mock_env [Timeout]) demo_service (lit ''Ava'') (lit ''Be friendly.'') (lit ''ITO'') (lit ''en'') None fresh_world = Some (PNone, fresh_world\<lparr>sent := sent fresh_world @ [create_request ascii_rt demo_service (lit ''Ava'') (lit ''Be friendly.'') (lit ''ITO'') (lit ''en'') None]\<rparr>)
   \<and> transport (mock_env [ConnectionError]) (sent fresh_world) (create_request ascii_rt demo_service (lit ''Ava'') (lit ''Be friendly.'') (lit ''ITO'') (lit ''en'') None) = ConnectionError
   \<and> create_agent ascii_rt (mock_env [ConnectionError]) demo_service (lit ''Ava'') (lit ''Be friendly.'') (lit ''ITO'') (lit ''en'') None fresh_world = Some (PNone, fresh_world\<lparr>sent := sent fresh_world @ [create_request ascii_rt demo_service (lit ''Ava'') (lit ''Be friendly.'') (lit ''ITO'') (lit ''en'') None]\<rparr>)"
  using create_agent_outcomes [of "mock_env [Response 201 (Some (PDict [(lit ''id'', PStr (lit ''cfg-1''))]))]" fresh_world ascii_rt demo_service "lit ''Ava''"
          "lit ''Be friendly.''" "lit ''ITO''" "lit ''en''" None
          "[(lit ''id'', PStr (lit ''cfg-1''))]" "lit ''cfg-1''" None]
        create_agent_outcomes [of "mock_env [Response 500 None]" fresh_world ascii_rt demo_service
          "lit ''Ava''" "lit ''Be friendly.''" "lit ''ITO''" "lit ''en''" None
          "[]" "[]" None]
        create_agent_outcomes [of "mock_env [Timeout]" fresh_world ascii_rt demo_service
          "lit ''Ava''" "lit ''Be friendly.''" "lit ''ITO''" "lit ''en''" None
          "[]" "[]" None]
        create_agent_outcomes [of "mock_env [ConnectionError]" fresh_world ascii_rt demo_service
          "lit ''Ava''" "lit ''Be friendly.''" "lit ''ITO''" "lit ''en''" None
          "[]" "[]" None]
  by (simp add: mock_env_def scripted_transport_def fresh_world_def lit_Nil_iff)

text \<open>
  C7, as amended. When the first request is answered with 409, \<open>create_agent\<close> calls
  itself once, with the name followed by an underscore and a fourteen digit time stamp
  down to the second, so the follow-up request carries a name that differs from the
  original; when the response to the follow-up is not a 409, these two requests are the
  whole run. The source counts no retries: a follow-up answered with 409 is retried in
  the same way, and a run of nothing but 409s ends with \<open>None\<close> where the nesting of
  calls is exhausted.
\<close>

theorem create_agent_conflict_retry:
  assumes "transport ev (sent w) (create_request rt svc nm sp v l ag) = Response 409 body"
  shows "create_agent_depth (Suc depth) rt ev svc nm sp v l ag w
           = create_agent_depth depth rt ev svc
               (nm @ lit ''_'' @ strftime (clock ev (clock_reads w + 1))) sp v l ag
               (w\<lparr>sent := sent w @ [create_request rt svc nm sp v l ag],
                  clock_reads := clock_reads w + 2\<rparr>)
       \<and> nm @ lit ''_'' @ strftime (clock ev (clock_reads w + 1)) \<noteq> nm
       \<and> length (strftime (clock ev (clock_reads w + 1))) = 14
       \<and> get (json (create_request rt svc nm sp v l ag)) (lit ''name'') = PStr nm
       \<and> get (json (create_request rt svc
                      (nm @ lit ''_'' @ strftime (clock ev (clock_reads w + 1))) sp v l ag))
             (lit ''name'')
           = PStr (nm @ lit ''_'' @ strftime (clock ev (clock_reads w + 1)))
       \<and> prefix (sent w @ [create_request rt svc nm sp v l ag,
                    create_request rt svc
                      (nm @ lit ''_'' @ strftime (clock ev (clock_reads w + 1))) sp v l ag])
            (sent (snd (create_agent_depth (Suc (Suc depth)) rt ev svc nm sp v l ag w)))
       \<and> ((\<forall>b. transport ev (sent w @ [create_request rt svc nm sp v l ag])
                  (create_request rt svc
                     (nm @ lit ''_'' @ strftime (clock ev (clock_reads w + 1))) sp v l ag)
                \<noteq> Response 409 b)
            \<longrightarrow> (\<exists>r. create_agent_depth (Suc (Suc depth)) rt ev svc nm sp v l ag w
                  = (r, w\<lparr>sent := sent w @ [create_request rt svc nm sp v l ag,
                        create_request rt svc
                          (nm @ lit ''_'' @ strftime (clock ev (clock_reads w + 1))) sp v l ag],
                      clock_reads := clock_reads w + 2\<rparr>)))
       \<and> ((\<forall>hist rq. transport ev hist rq = Response 409 body)
            \<longrightarrow> fst (create_agent_depth n rt ev svc nm sp v l ag w) = PNone
                \<and> length (sent (snd (create_agent_depth n rt ev svc nm sp v l ag w)))
                    = length (sent w) + n)"
proof -
  let ?nm' = "nm @ lit ''_'' @ strftime (clock ev (clock_reads w + 1))"
  let ?req = "create_request rt svc nm sp v l ag"
  let ?req' = "create_request rt svc ?nm' sp v l ag"
  let ?w2 = "w\<lparr>sent := sent w @ [?req], clock_reads := clock_reads w + 2\<rparr>"
  have step: "create_agent_depth (Suc d) rt ev svc nm sp v l ag w
        = create_agent_depth d rt ev svc ?nm' sp v l ag ?w2" for d
    using create_agent_depth_409 [OF _ assms, of "Suc d"] by simp
  have pre: "prefix (sent w @ [?req, ?req'])
      (sent (snd (create_agent_depth (Suc (Suc depth)) rt ev svc nm sp v l ag w)))"
    using create_agent_depth_sent_prefix [of "Suc depth" ?w2 rt svc ?nm' sp v l ag ev]
    unfolding step [of "Suc depth"] by simp
  have fin: "\<exists>r. create_agent_depth (Suc (Suc depth)) rt ev svc nm sp v l ag w
                  = (r, w\<lparr>sent := sent w @ [?req, ?req'],
                          clock_reads := clock_reads w + 2\<rparr>)"
    if "\<forall>b. transport ev (sent w @ [?req]) ?req' \<noteq> Response 409 b"
  proof -
    have "\<forall>b. transport ev (sent ?w2) ?req' \<noteq> Response 409 b"
      using that by simp
    from create_agent_depth_final [OF _ this, of "Suc depth"] obtain r where
      "create_agent_depth (Suc depth) rt ev svc ?nm' sp v l ag ?w2
         = (r, ?w2\<lparr>sent := sent ?w2 @ [?req']\<rparr>)"
      by auto
    moreover have "?w2\<lparr>sent := sent ?w2 @ [?req']\<rparr>
        = w\<lparr>sent := sent w @ [?req, ?req'], clock_reads := clock_reads w + 2\<rparr>"
      by (cases w) simp
    ultimately have "create_agent_depth (Suc (Suc depth)) rt ev svc nm sp v l ag w
        = (r, w\<lparr>sent := sent w @ [?req, ?req'], clock_reads := clock_reads w + 2\<rparr>)"
      by (simp only: step)
    then show ?thesis ..
  qed
  have "?nm' \<noteq> nm"
    by (simp add: lit_def)
  with step [of depth] pre fin create_agent_depth_all_conflicts [of ev body n rt svc nm sp v l ag w]
  show ?thesis
    by (simp add: strftime_length get_name_create_request del: create_agent_depth.simps)
qed

theorem create_agent_conflict_retry_witness:
  "transport (mock_env [Response 409 None, Response 201 (Some (PDict [(lit ''id'', PStr (lit ''cfg-1''))]))]) (sent fresh_world) (create_request ascii_rt demo_service (lit ''Ava'') (lit ''Be friendly.'') (lit ''ITO'') (lit ''en'') None) = Response 409 None
   \<and> lit ''Ava'' @ lit ''_'' @ strftime noon \<noteq> lit ''Ava''
   \<and> (\<forall>b. transport (mock_env [Response 409 None, Response 201 (Some (PDict [(lit ''id'', PStr (lit ''cfg-1''))]))]) (sent fresh_world @ [create_request ascii_rt demo_service (lit ''Ava'') (lit ''Be friendly.'') (lit ''ITO'') (lit ''en'') None]) (create_request ascii_rt demo_service (lit ''Ava'' @ lit ''_'' @ strftime noon) (lit ''Be friendly.'') (lit ''ITO'') (lit ''en'') None)
            \<noteq> Response 409 b)
   \<and> (\<exists>r. create_agent_depth (Suc (Suc 998)) ascii_rt (mock_env [Response 409 None, Response 201 (Some (PDict [(lit ''id'', PStr (lit ''cfg-1''))]))])
             demo_service (lit ''Ava'') (lit ''Be friendly.'') (lit ''ITO'') (lit ''en'') None fresh_world
           = (r, fresh_world\<lparr>sent := sent fresh_world @ [create_request ascii_rt demo_service (lit ''Ava'') (lit ''Be friendly.'') (lit ''ITO'') (lit ''en'') None, create_request ascii_rt demo_service (lit ''Ava'' @ lit ''_'' @ strftime noon) (lit ''Be friendly.'') (lit ''ITO'') (lit ''en'') None],
                   clock_reads := clock_reads fresh_world + 2\<rparr>))
   \<and> transport conflict_env (sent fresh_world) (create_request ascii_rt demo_service (lit ''Ava'') (lit ''Be friendly.'') (lit ''ITO'') (lit ''en'') None) = Response 409 None
   \<and> (\<forall>hist rq. transport conflict_env hist rq = Response 409 None)
   \<and> fst (create_agent_depth 989 ascii_rt conflict_env demo_service (lit ''Ava'') (lit ''Be friendly.'')
             (lit ''ITO'') (lit ''en'') None fresh_world) = PNone
   \<and> length (sent (snd (create_agent_depth 989 ascii_rt conflict_env demo_service (lit ''Ava'')
             (lit ''Be friendly.'') (lit ''ITO'') (lit ''en'') None fresh_world)))
       = length (sent fresh_world) + 989"
proof -
  have h: "transport (mock_env [Response 409 None, Response 201 (Some (PDict [(lit ''id'', PStr (lit ''cfg-1''))]))]) (sent fresh_world) (create_request ascii_rt demo_service (lit ''Ava'') (lit ''Be friendly.'') (lit ''ITO'') (lit ''en'') None)
            = Response 409 None"
    by (simp add: mock_env_def scripted_transport_def fresh_world_def)
  have c: "clock (mock_env [Response 409 None, Response 201 (Some (PDict [(lit ''id'', PStr (lit ''cfg-1''))]))]) (clock_reads fresh_world + 1) = noon"
    by (simp add: mock_env_def fixed_clock_def)
  have n: "\<forall>b. transport (mock_env [Response 409 None, Response 201 (Some (PDict [(lit ''id'', PStr (lit ''cfg-1''))]))]) (sent fresh_world @ [create_request ascii_rt demo_service (lit ''Ava'') (lit ''Be friendly.'') (lit ''ITO'') (lit ''en'') None]) (create_request ascii_rt demo_service (lit ''Ava'' @ lit ''_'' @ strftime noon) (lit ''Be friendly.'') (lit ''ITO'') (lit ''en'') None)
            \<noteq> Response 409 b"
    by (simp add: mock_env_def scripted_transport_def fresh_world_def)
  have a: "\<forall>hist rq. transport conflict_env hist rq = Response 409 None"
    by (simp add: conflict_env_def scripted_transport_def)
  then have h': "transport conflict_env (sent fresh_world) (create_request ascii_rt demo_service (lit ''Ava'') (lit ''Be friendly.'') (lit ''ITO'') (lit ''en'') None) = Response 409 None"
    by simp
  note t = create_agent_conflict_retry [OF h, where depth = 998 and n = 0, unfolded c]
  note u = create_agent_conflict_retry [OF h', where depth = 0 and n = 989]
  from t u h n a h' show ?thesis by blast
qed

text \<open>
  C7 as stated fails: with 409 answered twice, the first request is followed by two
  create requests, not by exactly one.
\<close>

theorem create_agent_two_conflicts:
  "transport (mock_env [Response 409 None, Response 409 None, Response 201 (Some (PDict [(lit ''id'', PStr (lit ''cfg-1''))]))]) (sent fresh_world) (create_request ascii_rt demo_service (lit ''Ava'') (lit ''Be friendly.'') (lit ''ITO'') (lit ''en'') None)
     = Response 409 None
   \<and> create_agent_depth 1000 ascii_rt (mock_env [Response 409 None, Response 409 None, Response 201 (Some (PDict [(lit ''id'', PStr (lit ''cfg-1''))]))])
        demo_service (lit ''Ava'') (lit ''Be friendly.'') (lit ''ITO'') (lit ''en'') None fresh_world
      = (PStr (lit ''cfg-1''), \<lparr>sent = [create_request ascii_rt demo_service (lit ''Ava'') (lit ''Be friendly.'') (lit ''ITO'') (lit ''en'') None, create_request ascii_rt demo_service (lit ''Ava'' @ lit ''_'' @ strftime noon) (lit ''Be friendly.'') (lit ''ITO'') (lit ''en'') None, create_request ascii_rt demo_service ((lit ''Ava'' @ lit ''_'' @ strftime noon) @ lit ''_'' @ strftime noon) (lit ''Be friendly.'') (lit ''ITO'') (lit ''en'') None], clock_reads = 4\<rparr>)
   \<and> length [create_request ascii_rt demo_service (lit ''Ava'') (lit ''Be friendly.'') (lit ''ITO'') (lit ''en'') None, create_request ascii_rt demo_service (lit ''Ava'' @ lit ''_'' @ strftime noon) (lit ''Be friendly.'') (lit ''ITO'') (lit ''en'') None, create_request ascii_rt demo_service ((lit ''Ava'' @ lit ''_'' @ strftime noon) @ lit ''_'' @ strftime noon) (lit ''Be friendly.'') (lit ''ITO'') (lit ''en'') None] = 3"
proof -
  let ?ev = "mock_env [Response 409 None, Response 409 None, Response 201 (Some (PDict [(lit ''id'', PStr (lit ''cfg-1''))]))]"
  let ?w1 = "fresh_world\<lparr>sent := sent fresh_world @ [create_request ascii_rt demo_service (lit ''Ava'') (lit ''Be friendly.'') (lit ''ITO'') (lit ''en'') None],
               clock_reads := clock_reads fresh_world + 2\<rparr>"
  let ?w2 = "?w1\<lparr>sent := sent ?w1 @ [create_request ascii_rt demo_service (lit ''Ava'' @ lit ''_'' @ strftime noon) (lit ''Be friendly.'') (lit ''ITO'') (lit ''en'') None], clock_reads := clock_reads ?w1 + 2\<rparr>"
  have c: "clock ?ev k = noon" for k
    by (simp add: mock_env_def fixed_clock_def)
  have h0: "transport ?ev (sent fresh_world) (create_request ascii_rt demo_service (lit ''Ava'') (lit ''Be friendly.'') (lit ''ITO'') (lit ''en'') None) = Response 409 None"
    by (simp add: mock_env_def scripted_transport_def fresh_world_def)
  have h1: "transport ?ev (sent ?w1) (create_request ascii_rt demo_service (lit ''Ava'' @ lit ''_'' @ strftime noon) (lit ''Be friendly.'') (lit ''ITO'') (lit ''en'') None) = Response 409 None"
    by (simp add: mock_env_def scripted_transport_def fresh_world_def)
  have h2: "transport ?ev (sent ?w2) (create_request ascii_rt demo_service ((lit ''Ava'' @ lit ''_'' @ strftime noon) @ lit ''_'' @ strftime noon) (lit ''Be friendly.'') (lit ''ITO'') (lit ''en'') None) = Response 201 (Some (PDict [(lit ''id'', PStr (lit ''cfg-1''))]))"
    by (simp add: mock_env_def scripted_transport_def fresh_world_def)
  have "create_agent_depth 1000 ascii_rt ?ev demo_service (lit ''Ava'') (lit ''Be friendly.'')
          (lit ''ITO'') (lit ''en'') None fresh_world
        = create_agent_depth 999 ascii_rt ?ev demo_service (lit ''Ava'' @ lit ''_'' @ strftime noon) (lit ''Be friendly.'')
          (lit ''ITO'') (lit ''en'') None ?w1"
    using create_agent_depth_409 [OF _ h0, of 1000] by (simp add: c)
  also have "\<dots> = create_agent_depth 998 ascii_rt ?ev demo_service ((lit ''Ava'' @ lit ''_'' @ strftime noon) @ lit ''_'' @ strftime noon) (lit ''Be friendly.'')
          (lit ''ITO'') (lit ''en'') None ?w2"
    using create_agent_depth_409 [OF _ h1, of 999] by (simp add: c)
  also have "\<dots> = (config_id_of (Some (PDict [(lit ''id'', PStr (lit ''cfg-1''))])),
                       ?w2\<lparr>sent := sent ?w2 @ [create_request ascii_rt demo_service ((lit ''Ava'' @ lit ''_'' @ strftime noon) @ lit ''_'' @ strftime noon) (lit ''Be friendly.'') (lit ''ITO'') (lit ''en'') None]\<rparr>)"
    by (rule create_agent_depth_201 [OF _ h2]) simp
  finally show ?thesis
    using h0 by (simp add: config_id_of_def get_def get_default_def fresh_world_def)
qed

text \<open>
  C8. In the payload that \<open>create_agent\<close> sends, the description is the enhanced prompt
  when it has at most 200 characters, and its first 200 characters followed by ``...''
  when it has more; the request carrying this payload is the first one of every run.
\<close>

theorem create_payload_description:
  "(length (build_system_prompt rt sp ag) \<le> 200 \<longrightarrow>
      get (json (create_request rt svc nm sp v l ag)) (lit ''description'')
        = PStr (build_system_prompt rt sp ag))
 \<and> (length (build_system_prompt rt sp ag) > 200 \<longrightarrow>
      get (json (create_request rt svc nm sp v l ag)) (lit ''description'')
        = PStr (take 200 (build_system_prompt rt sp ag) @ lit ''...''))
 \<and> (create_agent rt ev svc nm sp v l ag w = Some y \<longrightarrow>
      sent (snd y) ! length (sent w) = create_request rt svc nm sp v l ag)"
proof -
  have "sent (snd y) ! length (sent w) = create_request rt svc nm sp v l ag"
    if "create_agent rt ev svc nm sp v l ag w = Some y"
    using create_agent_sent_prefix [OF that] by (auto simp: prefix_def nth_append)
  then show ?thesis
    by (simp add: get_description_create_request description_of_def)
qed

theorem create_payload_description_witness:
  "length (build_system_prompt ascii_rt (lit ''Be friendly.'') None) \<le> 200
   \<and> get (json (create_request ascii_rt demo_service (lit ''Ava'') (lit ''Be friendly.'') (lit ''ITO'') (lit ''en'') None)) (lit ''description'') = PStr (lit ''Be friendly.'')
   \<and> length (build_system_prompt ascii_rt (replicate 201 120) None) > 200
   \<and> get (json (create_request ascii_rt demo_service (lit ''Ava'') (replicate 201 120)
              (lit ''ITO'') (lit ''en'') None)) (lit ''description'')
       = PStr (replicate 200 120 @ lit ''...'')
   \<and> create_agent ascii_rt (mock_env [Response 201 (Some (PDict [(lit ''id'', PStr (lit ''cfg-1''))]))]) demo_service (lit ''Ava'') (lit ''Be friendly.'') (lit ''ITO'') (lit ''en'') None fresh_world = Some (PStr (lit ''cfg-1''), fresh_world\<lparr>sent := sent fresh_world @ [create_request ascii_rt demo_service (lit ''Ava'') (lit ''Be friendly.'') (lit ''ITO'') (lit ''en'') None]\<rparr>)
   \<and> sent (snd (PStr (lit ''cfg-1''), fresh_world\<lparr>sent := sent fresh_world @ [create_request ascii_rt demo_service (lit ''Ava'') (lit ''Be friendly.'') (lit ''ITO'') (lit ''en'') None]\<rparr>))
        ! length (sent fresh_world) = create_request ascii_rt demo_service (lit ''Ava'') (lit ''Be friendly.'') (lit ''ITO'') (lit ''en'') None"
proof -
  have run: "create_agent ascii_rt (mock_env [Response 201 (Some (PDict [(lit ''id'', PStr (lit ''cfg-1''))]))]) demo_service (lit ''Ava'') (lit ''Be friendly.'') (lit ''ITO'') (lit ''en'') None fresh_world
      = Some (PStr (lit ''cfg-1''), fresh_world\<lparr>sent := sent fresh_world @ [create_request ascii_rt demo_service (lit ''Ava'') (lit ''Be friendly.'') (lit ''ITO'') (lit ''en'') None]\<rparr>)"
    by (subst create_agent.simps)
       (simp add: post_def mock_env_def scripted_transport_def fresh_world_def config_id_of_def
          get_def get_default_def)
  have short: "build_system_prompt ascii_rt (lit ''Be friendly.'') None = lit ''Be friendly.''"
    and long: "build_system_prompt ascii_rt (replicate 201 120) None = replicate 201 120"
    by (simp_all add: build_system_prompt_def)
  have len: "length (lit ''Be friendly.'') \<le> 200"
    by (simp add: lit_def)
  from create_payload_description [of ascii_rt "lit ''Be friendly.''" None demo_service
          "lit ''Ava''" "lit ''ITO''" "lit ''en''" "mock_env [Response 201 (Some (PDict [(lit ''id'', PStr (lit ''cfg-1''))]))]" fresh_world
          "(PStr (lit ''cfg-1''), fresh_world\<lparr>sent := sent fresh_world @ [create_request ascii_rt demo_service (lit ''Ava'') (lit ''Be friendly.'') (lit ''ITO'') (lit ''en'') None]\<rparr>)"]
       create_payload_description [of ascii_rt "replicate 201 120" None demo_service
          "lit ''Ava''" "lit ''ITO''" "lit ''en''" "mock_env [Response 201 (Some (PDict [(lit ''id'', PStr (lit ''cfg-1''))]))]" fresh_world
          "(PStr (lit ''cfg-1''), fresh_world\<lparr>sent := sent fresh_world @ [create_request ascii_rt demo_service (lit ''Ava'') (lit ''Be friendly.'') (lit ''ITO'') (lit ''en'') None]\<rparr>)"]
       run len
  show ?thesis
    unfolding short long by simp
qed

text \<open>
  C9. \<open>update_agent\<close> with none of the optional arguments returns \<open>False\<close> and makes
  no request: the world is unchanged.
\<close>

theorem update_agent_nothing_supplied:
  "update_agent ev svc config_id None None None None w = (False, w)
   \<and> sent (snd (update_agent ev svc config_id None None None None w)) = sent w"
  by (simp add: update_agent_def update_payload_def supplied_def)

end
